theory Spec2Isabelle
  imports Complex_Main "HOL-Library.Word" "HOL-Library.Multiset" "HOL-Library.Log_Nat"
    "HOL-Library.Product_Lexorder"
begin

section \<open>Python numbers\<close>

text \<open>
  The service of \<^verbatim>\<open>ai_generation_detector.py\<close> relays an uploaded image to a vendor
  endpoint and post-processes the JSON answer. The numbers in that answer are Python
  \<^verbatim>\<open>int\<close>s, which are unbounded, and Python \<^verbatim>\<open>float\<close>s, which are IEEE-754 doubles: a
  finite double is the rational number it denotes, and beside the finite ones there are
  the negative zero, the two infinities and NaN (the parser accepts \<^verbatim>\<open>NaN\<close>,
  \<^verbatim>\<open>Infinity\<close> and \<^verbatim>\<open>-Infinity\<close>). \<open>Finite 0\<close> is the positive zero.
\<close>

datatype pyfloat = Finite rat | NegZero | PosInf | NegInf | NaN

datatype pynum = PInt int | PFloat pyfloat

text \<open>
  Python compares an int with a float by exact value. Every comparison with NaN is
  false; otherwise the numbers are ordered as the extended rationals, the two zeros
  being equal. \<open>num_rank\<close> places a number that is not NaN on that line.
\<close>

fun is_nan :: "pynum \<Rightarrow> bool" where
  "is_nan (PFloat NaN) = True"
| "is_nan _ = False"

fun num_rank :: "pynum \<Rightarrow> int \<times> rat" where
  "num_rank (PInt n) = (0, of_int n)"
| "num_rank (PFloat (Finite q)) = (0, q)"
| "num_rank (PFloat NegZero) = (0, 0)"
| "num_rank (PFloat PosInf) = (1, 0)"
| "num_rank (PFloat NegInf) = (- 1, 0)"
| "num_rank (PFloat NaN) = (0, 0)"

definition num_lt :: "pynum \<Rightarrow> pynum \<Rightarrow> bool" where
  "num_lt a b = (\<not> is_nan a \<and> \<not> is_nan b \<and> num_rank a < num_rank b)"

definition num_le :: "pynum \<Rightarrow> pynum \<Rightarrow> bool" where
  "num_le a b = (\<not> is_nan a \<and> \<not> is_nan b \<and> num_rank a \<le> num_rank b)"

subsection \<open>Rounding to a double\<close>

text \<open>
  A double has 53 significant bits and a binary exponent between \<open>-1074\<close> and \<open>971\<close>
  for its last bit. \<open>to_double x\<close> is the double nearest to the rational \<open>x\<close>, ties
  going to the even significand: for \<open>x \<noteq> 0\<close> the exponent \<open>e\<close> of the last bit is fixed
  by the binary logarithm of \<open>\<bar>x\<bar>\<close> (and is \<open>-1074\<close> in the subnormal range), the
  significand is \<open>\<bar>x\<bar> / 2^e\<close> rounded half-even, and a result of \<open>2^1024\<close> or more is
  an infinity. This is what the parser does with a decimal literal, what
  \<^verbatim>\<open>float(n)\<close> does with an int, and how the result of every float operation is rounded.
\<close>

definition pow2 :: "int \<Rightarrow> rat" where
  "pow2 e = (if 0 \<le> e then 2 ^ nat e else 1 / 2 ^ nat (- e))"

definition floor_log2 :: "rat \<Rightarrow> int" where
  "floor_log2 a =
     (let k = bitlen (fst (quotient_of a)) - bitlen (snd (quotient_of a))
      in if pow2 k \<le> a then k else k - 1)"

definition round_half_even :: "rat \<Rightarrow> int" where
  "round_half_even r =
     (let f = \<lfloor>r\<rfloor>; d = r - of_int f
      in if d < 1 / 2 then f else if 1 / 2 < d then f + 1 else if even f then f else f + 1)"

definition to_double :: "rat \<Rightarrow> pyfloat" where
  "to_double x =
     (if x = 0 then Finite 0
      else
        let a = \<bar>x\<bar>;
            e = max (- 1074) (floor_log2 a - 52);
            m = round_half_even (a / pow2 e)
        in if 971 < e \<or> (e = 971 \<and> 2 ^ 53 \<le> m) then (if 0 < x then PosInf else NegInf)
           else if m = 0 then (if 0 < x then Finite 0 else NegZero)
           else Finite ((if 0 < x then 1 else - 1) * of_int m * pow2 e))"

text \<open>
  \<^verbatim>\<open>x * 100\<close>: exact on an int (a \<^verbatim>\<open>bool\<close> counts as the int 0 or 1); on a float the
  exact product rounded to a double.
\<close>

fun float_times100 :: "pyfloat \<Rightarrow> pyfloat" where
  "float_times100 (Finite q) = to_double (q * 100)"
| "float_times100 f = f"

fun times100 :: "pynum \<Rightarrow> pynum" where
  "times100 (PInt n) = PInt (n * 100)"
| "times100 (PFloat f) = PFloat (float_times100 f)"

text \<open>
  \<^verbatim>\<open>round(x, ndigits)\<close> for \<^verbatim>\<open>ndigits\<close> 2 or 3. An int is returned unchanged. On a finite
  float CPython prints the exact value with \<^verbatim>\<open>ndigits\<close> decimals, correctly rounded (a
  tie, which needs the value to be exactly halfway, goes to the even digit), and reads
  the decimal back as the nearest double; the sign is kept when the decimal is zero.
  Zeros, infinities and NaN round to themselves.
\<close>

fun float_round :: "pyfloat \<Rightarrow> nat \<Rightarrow> pyfloat" where
  "float_round (Finite q) ndigits =
     (let k = round_half_even (q * 10 ^ ndigits)
      in if k = 0 then (if q < 0 then NegZero else Finite 0)
         else to_double (of_int k / 10 ^ ndigits))"
| "float_round f ndigits = f"

fun py_round :: "pynum \<Rightarrow> nat \<Rightarrow> pynum" where
  "py_round (PInt n) ndigits = PInt n"
| "py_round (PFloat f) ndigits = PFloat (float_round f ndigits)"

section \<open>Values exchanged with the vendor\<close>

text \<open>
  A parsed JSON document is a Python value: \<^verbatim>\<open>None\<close>, a \<^verbatim>\<open>bool\<close>, an \<^verbatim>\<open>int\<close>, a
  \<^verbatim>\<open>float\<close>, a \<^verbatim>\<open>str\<close>, a \<^verbatim>\<open>list\<close> or a \<^verbatim>\<open>dict\<close>. A dict keeps its insertion order, so it
  is an association list; the parser leaves every key once. The parser refuses an int
  literal of more than 4300 digits, so a parsed document holds none.
\<close>

datatype json =
    JNull
  | JBool bool
  | JInt int
  | JFloat pyfloat
  | JStr string
  | JArr "json list"
  | JObj "(string \<times> json) list"

text \<open>
  Exceptions are values. \<^verbatim>\<open>HTTPException\<close> is the framework's error response (status
  code and detail). A \<open>Refused\<close> exception is raised by the HTTP library before anything
  is sent (a URL or a header value it does not accept); \<^verbatim>\<open>ConnectionError\<close> carries the
  text of a failed transmission, \<^verbatim>\<open>HTTPError\<close> the status, reason and URL of a response
  with an error status, \<^verbatim>\<open>JSONDecodeError\<close> the text of the parser. The others are
  raised by the Python runtime. The handler at the end of \<^verbatim>\<open>detect_deepfake\<close> builds a
  detail from \<^verbatim>\<open>str(e)\<close>: the text of an exception is kept as the exception itself
  (\<open>StrOf e\<close>).
\<close>

datatype refusal =
    MissingSchema
  | InvalidSchema
  | InvalidURL
  | InvalidHeader
  | LocalError string

datatype exn =
    HTTPException nat detail
  | Refused refusal
  | ConnectionError string
  | HTTPError nat string string
  | JSONDecodeError string
  | KeyError string
  | IndexError
  | TypeError
  | AttributeError
  | ValueError
  | OverflowError
and detail = Lit string | StrOf exn

definition then_do :: "exn + 'a \<Rightarrow> ('a \<Rightarrow> exn + 'b) \<Rightarrow> exn + 'b" where
  "then_do m f = (case m of Inl e \<Rightarrow> Inl e | Inr x \<Rightarrow> f x)"

section \<open>Operations of the Python runtime on parsed JSON\<close>

fun str_contains :: "string \<Rightarrow> string \<Rightarrow> bool" where
  "str_contains sub [] = (sub = [])"
| "str_contains sub (c # cs) = (take (length sub) (c # cs) = sub \<or> str_contains sub cs)"

text \<open>\<^verbatim>\<open>key in obj\<close> for a string key.\<close>

fun py_in :: "string \<Rightarrow> json \<Rightarrow> exn + bool" where
  "py_in k (JObj kvs) = Inr (map_of kvs k \<noteq> None)"
| "py_in k (JArr xs) = Inr (JStr k \<in> set xs)"
| "py_in k (JStr s) = Inr (str_contains k s)"
| "py_in k _ = Inl TypeError"

text \<open>\<^verbatim>\<open>obj[key]\<close> for a string key: only a dict can be subscripted by a string.\<close>

fun py_getitem :: "json \<Rightarrow> string \<Rightarrow> exn + json" where
  "py_getitem (JObj kvs) k = (case map_of kvs k of None \<Rightarrow> Inl (KeyError k) | Some x \<Rightarrow> Inr x)"
| "py_getitem _ k = Inl TypeError"

fun py_len :: "json \<Rightarrow> exn + nat" where
  "py_len (JArr xs) = Inr (length xs)"
| "py_len (JStr s) = Inr (length s)"
| "py_len (JObj kvs) = Inr (length kvs)"
| "py_len _ = Inl TypeError"

text \<open>\<^verbatim>\<open>obj[0]\<close>: a parsed dict has string keys only, so the key \<^verbatim>\<open>0\<close> is never there.\<close>

fun py_getitem0 :: "json \<Rightarrow> exn + json" where
  "py_getitem0 (JArr []) = Inl IndexError"
| "py_getitem0 (JArr (x # xs)) = Inr x"
| "py_getitem0 (JStr []) = Inl IndexError"
| "py_getitem0 (JStr (c # cs)) = Inr (JStr [c])"
| "py_getitem0 (JObj kvs) = Inl (KeyError ''0'')"
| "py_getitem0 _ = Inl TypeError"

text \<open>\<^verbatim>\<open>obj.get(key, default)\<close> and \<^verbatim>\<open>obj.items()\<close> exist on a dict only.\<close>

fun py_get :: "json \<Rightarrow> string \<Rightarrow> json \<Rightarrow> exn + json" where
  "py_get (JObj kvs) k d = Inr (case map_of kvs k of None \<Rightarrow> d | Some x \<Rightarrow> x)"
| "py_get _ k d = Inl AttributeError"

fun py_items :: "json \<Rightarrow> exn + (string \<times> json) list" where
  "py_items (JObj kvs) = Inr kvs"
| "py_items _ = Inl AttributeError"

text \<open>
  A Python \<^verbatim>\<open>bool\<close> is an \<^verbatim>\<open>int\<close>: in arithmetic and comparisons \<^verbatim>\<open>True\<close> is 1 and
  \<^verbatim>\<open>False\<close> is 0.
\<close>

fun is_number :: "json \<Rightarrow> bool" where
  "is_number (JInt n) = True"
| "is_number (JFloat f) = True"
| "is_number (JBool b) = True"
| "is_number _ = False"

fun is_str :: "json \<Rightarrow> bool" where
  "is_str (JStr s) = True"
| "is_str _ = False"

fun number :: "json \<Rightarrow> pynum" where
  "number (JInt n) = PInt n"
| "number (JFloat f) = PFloat f"
| "number (JBool b) = PInt (if b then 1 else 0)"
| "number _ = PInt 0"

section \<open>File names and encoding\<close>

text \<open>
  \<^verbatim>\<open>os.path.splitext\<close> (POSIX): the extension starts at the last dot after the last
  slash, unless only dots come before it in the last path component.
\<close>

fun rfind :: "char \<Rightarrow> string \<Rightarrow> int" where
  "rfind c [] = -1"
| "rfind c (x # xs) = (let r = rfind c xs in if r \<ge> 0 then r + 1 else if x = c then 0 else -1)"

function splitext_scan :: "string \<Rightarrow> nat \<Rightarrow> nat \<Rightarrow> bool" where
  "splitext_scan p i d =
     (if i < d then (if p ! i \<noteq> CHR ''.'' then True else splitext_scan p (Suc i) d)
      else False)"
  by pat_completeness auto
termination
  by (relation "measure (\<lambda>(p, i, d). d - i)") auto

declare splitext_scan.simps [simp del]

definition splitext :: "string \<Rightarrow> string \<times> string" where
  "splitext p =
     (let sepIndex = rfind CHR ''/'' p; dotIndex = rfind CHR ''.'' p
      in if dotIndex > sepIndex \<and> splitext_scan p (nat (sepIndex + 1)) (nat dotIndex)
         then (take (nat dotIndex) p, drop (nat dotIndex) p)
         else (p, []))"

definition char_lower :: "char \<Rightarrow> char" where
  "char_lower c =
     (case map_of (zip ''ABCDEFGHIJKLMNOPQRSTUVWXYZ'' ''abcdefghijklmnopqrstuvwxyz'') c of
        None \<Rightarrow> c | Some l \<Rightarrow> l)"

definition lower :: "string \<Rightarrow> string" where
  "lower s = map char_lower s"

text \<open>\<^verbatim>\<open>base64.b64encode\<close> (RFC 4648, with padding) on the bytes of the file.\<close>

type_synonym byte = "8 word"

definition b64char :: "nat \<Rightarrow> char" where
  "b64char i =
     ''ABCDEFGHIJKLMNOPQRSTUVWXYZabcdefghijklmnopqrstuvwxyz0123456789+/'' ! (i mod 64)"

fun b64encode :: "byte list \<Rightarrow> string" where
  "b64encode [] = []"
| "b64encode [a] =
     (let n = unat a * 65536
      in [b64char (n div 262144), b64char (n div 4096), CHR ''='', CHR ''=''])"
| "b64encode [a, b] =
     (let n = unat a * 65536 + unat b * 256
      in [b64char (n div 262144), b64char (n div 4096), b64char (n div 64), CHR ''=''])"
| "b64encode (a # b # c # rest) =
     (let n = unat a * 65536 + unat b * 256 + unat c
      in [b64char (n div 262144), b64char (n div 4096), b64char (n div 64), b64char n]
         @ b64encode rest)"

section \<open>HTTP calls\<close>

text \<open>
  The program talks to the vendor through \<^verbatim>\<open>requests.post\<close> and \<^verbatim>\<open>requests.put\<close>. The
  HTTP library, the network and the vendor together are a parameter, the world: given
  the requests sent so far and the next call, the world refuses the call before anything
  is sent (the library raises on the URL or on a header value), or the transmission
  fails (connection error or timeout, with the text of the exception), or a response
  comes back. A response has a status code, a reason, the URL it came from, and a
  body that parses as JSON or does not. The URL of a call is the value the program
  passes, which may come from the vendor and be no string.

  Every call that is not refused is appended to the trace, so that "no call was made"
  and "this request was sent with these headers" are statements about the trace.
\<close>

datatype http_method = POST | PUT

datatype payload = JsonBody json | FileBody "byte list"

record request =
  meth :: http_method
  url :: json
  headers :: "(string \<times> string) list"
  body :: payload

datatype parse_error = NotJSON string | IntTooLong

record response =
  status_code :: nat
  reason :: string
  final_url :: string
  json_body :: "parse_error + json"

datatype outcome = Refuses refusal | Failed string | Answered response

type_synonym world = "request list \<Rightarrow> request \<Rightarrow> outcome"

fun returned :: "outcome \<Rightarrow> exn + response" where
  "returned (Refuses r) = Inl (Refused r)"
| "returned (Failed msg) = Inl (ConnectionError msg)"
| "returned (Answered resp) = Inr resp"

fun is_sent :: "outcome \<Rightarrow> bool" where
  "is_sent (Refuses r) = False"
| "is_sent _ = True"

definition requests_call ::
  "world \<Rightarrow> request \<Rightarrow> request list \<Rightarrow> (exn + response) \<times> request list" where
  "requests_call w rq trace =
     (returned (w trace rq), if is_sent (w trace rq) then trace @ [rq] else trace)"

definition raise_for_status :: "response \<Rightarrow> exn + unit" where
  "raise_for_status r =
     (if 400 \<le> status_code r \<and> status_code r < 600
      then Inl (HTTPError (status_code r) (reason r) (final_url r))
      else Inr ())"

text \<open>
  \<^verbatim>\<open>response.json()\<close>: a body that is no JSON raises \<^verbatim>\<open>JSONDecodeError\<close>, an int literal
  of more than 4300 digits raises \<^verbatim>\<open>ValueError\<close>.
\<close>

definition response_json :: "response \<Rightarrow> exn + json" where
  "response_json r =
     (case json_body r of
        Inl (NotJSON msg) \<Rightarrow> Inl (JSONDecodeError msg)
      | Inl IntTooLong \<Rightarrow> Inl ValueError
      | Inr j \<Rightarrow> Inr j)"

section \<open>Configuration\<close>

text \<open>
  \<^verbatim>\<open>os.getenv('NVIDIA_API_KEY')\<close> is \<^verbatim>\<open>None\<close> or a string; it is the parameter \<open>key\<close> of
  what follows. The f-string of \<^verbatim>\<open>HEADER_AUTH\<close> prints \<^verbatim>\<open>None\<close> as the text "None".
\<close>

definition HEADER_AUTH :: "string option \<Rightarrow> string" where
  "HEADER_AUTH key = ''Bearer '' @ (case key of None \<Rightarrow> ''None'' | Some k \<Rightarrow> k)"

definition INVOKE_URL :: string where
  "INVOKE_URL = ''https://ai.api.nvidia.com/v1/cv/hive/ai-generated-image-detection''"

definition ASSETS_URL :: string where
  "ASSETS_URL = ''https://api.nvcf.nvidia.com/v2/nvcf/assets''"

section \<open>\<^verbatim>\<open>upload_asset\<close>\<close>

text \<open>
  The two phases of \<^verbatim>\<open>upload_asset(path, desc, mime_type)\<close>: a POST that reserves an
  upload URL and an asset id, then a PUT of the file to that URL, whatever value the
  vendor gave for it. The file at \<^verbatim>\<open>path\<close> is given by its bytes.
\<close>

definition reserve_request :: "string option \<Rightarrow> string \<Rightarrow> string \<Rightarrow> request" where
  "reserve_request key desc mime_type =
     \<lparr>meth = POST, url = JStr ASSETS_URL,
      headers = [(''Content-Type'', ''application/json''),
                 (''Authorization'', HEADER_AUTH key),
                 (''accept'', ''application/json'')],
      body = JsonBody (JObj [(''contentType'', JStr mime_type), (''description'', JStr desc)])\<rparr>"

definition transfer_request :: "json \<Rightarrow> byte list \<Rightarrow> string \<Rightarrow> string \<Rightarrow> request" where
  "transfer_request current_pre_signed_url input_data desc mime_type =
     \<lparr>meth = PUT, url = current_pre_signed_url,
      headers = [(''Content-Type'', mime_type),
                 (''x-amz-meta-nvcf-asset-description'', desc)],
      body = FileBody input_data\<rparr>"

definition upload_asset ::
  "string option \<Rightarrow> world \<Rightarrow> byte list \<Rightarrow> string \<Rightarrow> string \<Rightarrow> request list
     \<Rightarrow> (exn + json) \<times> request list" where
  "upload_asset key w input_data desc mime_type trace =
     (let (r, trace1) = requests_call w (reserve_request key desc mime_type) trace
      in case then_do r (\<lambda>response.
              then_do (raise_for_status response) (\<lambda>_.
              then_do (response_json response) (\<lambda>j.
              then_do (py_getitem j ''uploadUrl'') (\<lambda>current_pre_signed_url.
              then_do (py_getitem j ''assetId'') (\<lambda>asset_id.
              Inr (current_pre_signed_url, asset_id)))))) of
           Inl e \<Rightarrow> (Inl e, trace1)
         | Inr (current_pre_signed_url, asset_id) \<Rightarrow>
             (let (r2, trace2) =
                    requests_call w
                      (transfer_request current_pre_signed_url input_data desc mime_type) trace1
              in (then_do r2 (\<lambda>upload_response.
                  then_do (raise_for_status upload_response) (\<lambda>_.
                  Inr asset_id)), trace2)))"

section \<open>Ranking the sources\<close>

text \<open>
  \<^verbatim>\<open>sorted(items, key=lambda x: x[1], reverse=True)\<close>. CPython reverses the list, sorts
  it in ascending order with its stable sort and reverses the result, which is how
  equal keys keep their order under \<^verbatim>\<open>reverse=True\<close>.

  When no key is NaN the keys are totally preordered, every stable sort returns the same
  list, and the model writes it with \<open>sort_key\<close>. With a NaN among the keys the result
  depends on the comparisons the algorithm makes. The model then follows CPython's
  \<^verbatim>\<open>listsort\<close> as it runs on fewer than 64 items (up to version 3.12): the longest run at
  the start of the list is found (a strictly descending run is reversed), and the
  remaining items are inserted one by one by binary search. A list of 64 items or more
  with a NaN key is merged from several runs by CPython, which the model does not
  follow.
\<close>

fun run_length :: "('a \<Rightarrow> 'a \<Rightarrow> bool) \<Rightarrow> bool \<Rightarrow> 'a \<Rightarrow> 'a list \<Rightarrow> nat" where
  "run_length lt descending prev [] = 0"
| "run_length lt descending prev (x # xs) =
     (if lt x prev = descending then Suc (run_length lt descending x xs) else 0)"

function bisect :: "('a \<Rightarrow> 'a \<Rightarrow> bool) \<Rightarrow> 'a \<Rightarrow> 'a list \<Rightarrow> nat \<Rightarrow> nat \<Rightarrow> nat" where
  "bisect lt pivot xs l r =
     (if l < r
      then (let p = l + (r - l) div 2
            in if lt pivot (xs ! p) then bisect lt pivot xs l p
               else bisect lt pivot xs (p + 1) r)
      else l)"
  by pat_completeness auto
termination
  by (relation "measure (\<lambda>(lt, pivot, xs, l, r). r - l)") auto

declare bisect.simps [simp del]

definition binary_insert :: "('a \<Rightarrow> 'a \<Rightarrow> bool) \<Rightarrow> 'a list \<Rightarrow> 'a \<Rightarrow> 'a list" where
  "binary_insert lt xs pivot =
     (let i = bisect lt pivot xs 0 (length xs) in take i xs @ [pivot] @ drop i xs)"

fun listsort :: "('a \<Rightarrow> 'a \<Rightarrow> bool) \<Rightarrow> 'a list \<Rightarrow> 'a list" where
  "listsort lt (a # b # rest) =
     (let descending = lt b a;
          n = 2 + run_length lt descending b rest;
          run = take n (a # b # rest)
      in foldl (binary_insert lt) (if descending then rev run else run) (drop n (a # b # rest)))"
| "listsort lt xs = xs"

definition weight :: "string \<times> json \<Rightarrow> pynum" where
  "weight x = number (snd x)"

definition item_lt :: "string \<times> json \<Rightarrow> string \<times> json \<Rightarrow> bool" where
  "item_lt x y = num_lt (weight x) (weight y)"

definition sorted_reverse :: "(string \<times> json) list \<Rightarrow> (string \<times> json) list" where
  "sorted_reverse items =
     (if list_all (\<lambda>x. \<not> is_nan (weight x)) items
      then rev (sort_key (\<lambda>x. num_rank (weight x)) (rev items))
      else rev (listsort item_lt (rev items)))"

text \<open>
  Comparing the weights raises \<^verbatim>\<open>TypeError\<close> unless they are all numbers or all
  strings. (Lists compare with lists, and a single item of any type is never compared;
  in both cases the sort may return, but the formatting of \<^verbatim>\<open>sources_message\<close> then
  raises the same \<^verbatim>\<open>TypeError\<close>, so the model raises it here.) When all weights are
  strings the sort returns, and \<^verbatim>\<open>format_sources\<close> below raises before the sorted list
  is used; the model leaves the strings in place rather than define their order.
\<close>

definition py_sorted_reverse :: "(string \<times> json) list \<Rightarrow> exn + (string \<times> json) list" where
  "py_sorted_reverse items =
     (if list_all (\<lambda>x. is_number (snd x)) items then Inr (sorted_reverse items)
      else if list_all (\<lambda>x. is_str (snd x)) items then Inr items
      else Inl TypeError)"

section \<open>Post-processing of the vendor's answer\<close>

text \<open>
  The two message strings are kept as the pieces their f-strings join: literal text,
  \<open>Shown x\<close> for \<^verbatim>\<open>str(x)\<close> of a number and \<open>Fixed2 f\<close> for the float \<open>f\<close> printed with
  \<^verbatim>\<open>.2f\<close>. How a number is printed as digits is not modelled.
\<close>

datatype piece = Text string | Shown pynum | Fixed2 pyfloat

text \<open>The dict returned by \<^verbatim>\<open>detect_deepfake\<close>.\<close>

record verdict =
  filename :: string
  is_ai_generated :: bool
  confidence :: pynum
  confidence_score :: pynum
  threshold :: pyfloat
  status :: string
  message :: "piece list"
  top_sources :: "(string \<times> json) list"
  sources_message :: "piece list"

text \<open>
  Lines 168 and 169: \<^verbatim>\<open>round(ai_generated_score * 100, 2)\<close> and
  \<^verbatim>\<open>round(ai_generated_score, 3)\<close> raise \<^verbatim>\<open>TypeError\<close> when the score is not a number.
\<close>

definition round_score :: "json \<Rightarrow> exn + pynum \<times> pynum" where
  "round_score ai_generated_score =
     (if is_number ai_generated_score
      then Inr (py_round (times100 (number ai_generated_score)) 2,
                py_round (number ai_generated_score) 3)
      else Inl TypeError)"

text \<open>
  Line 172, \<^verbatim>\<open>f"{source} ({score*100:.2f}%)"\<close> for each of \<^verbatim>\<open>top_sources\<close>: the format
  code \<^verbatim>\<open>.2f\<close> turns an int into a float first, which raises \<^verbatim>\<open>OverflowError\<close> when the
  int rounds to no finite double; it raises \<^verbatim>\<open>ValueError\<close> on a string and
  \<^verbatim>\<open>TypeError\<close> on any other value that is not a number. The parts are joined with
  a comma and a space.
\<close>

fun fixed2 :: "pynum \<Rightarrow> exn + pyfloat" where
  "fixed2 (PFloat f) = Inr f"
| "fixed2 (PInt n) =
     (case to_double (of_int n) of
        PosInf \<Rightarrow> Inl OverflowError
      | NegInf \<Rightarrow> Inl OverflowError
      | f \<Rightarrow> Inr f)"

definition format_source :: "string \<times> json \<Rightarrow> exn + piece list" where
  "format_source x =
     (if is_number (snd x)
      then then_do (fixed2 (times100 (weight x))) (\<lambda>f.
           Inr [Text (fst x), Text '' ('', Fixed2 f, Text ''%)''])
      else if is_str (snd x) then Inl ValueError
      else Inl TypeError)"

fun format_sources :: "(string \<times> json) list \<Rightarrow> exn + piece list list" where
  "format_sources [] = Inr []"
| "format_sources (x # rest) =
     then_do (format_source x) (\<lambda>p.
     then_do (format_sources rest) (\<lambda>ps. Inr (p # ps)))"

fun join :: "piece list \<Rightarrow> piece list list \<Rightarrow> piece list" where
  "join sep [] = []"
| "join sep [p] = p"
| "join sep (p # q # ps) = p @ sep @ join sep (q # ps)"

text \<open>
  Line 181: \<^verbatim>\<open>str\<close> of an int of more than 4300 digits raises \<^verbatim>\<open>ValueError\<close>; a float
  is always printed.
\<close>

definition max_str_digits :: nat where
  "max_str_digits = 4300"

definition str_of_int_ok :: "int \<Rightarrow> bool" where
  "str_of_int_ok n = (\<bar>n\<bar> < 10 ^ max_str_digits)"

fun shown :: "pynum \<Rightarrow> exn + piece" where
  "shown (PFloat f) = Inr (Shown (PFloat f))"
| "shown (PInt n) = (if str_of_int_ok n then Inr (Shown (PInt n)) else Inl ValueError)"

definition invalid_response_format :: exn where
  "invalid_response_format = HTTPException 500 (Lit ''Invalid response format from NVIDIA API'')"

text \<open>Lines 174 to 184: the returned dict, once nothing raised before.\<close>

definition build_verdict ::
  "string \<Rightarrow> pyfloat \<Rightarrow> json \<Rightarrow> pynum \<Rightarrow> pynum \<Rightarrow> (string \<times> json) list \<Rightarrow> piece list list
     \<Rightarrow> exn + verdict" where
  "build_verdict fname thr ai_generated_score confidence_percentage confidence_score_value
      first_three parts =
     then_do (shown confidence_percentage) (\<lambda>percentage_text.
     Inr \<lparr>filename = fname,
          is_ai_generated = num_lt (PFloat thr) (number ai_generated_score),
          confidence = confidence_percentage,
          confidence_score = confidence_score_value,
          threshold = thr,
          status = ''success'',
          message =
            [Text ''This image is '',
             Text (if num_lt (PFloat thr) (number ai_generated_score)
                   then ''likely'' else ''unlikely''),
             Text '' to be AI-generated with '', percentage_text,
             Text ''% confidence (threshold: '', Shown (PFloat thr), Text '')''],
          top_sources = first_three,
          sources_message = Text ''Top sources: '' # join [Text '', ''] parts\<rparr>)"

text \<open>Lines 155 to 189: from the parsed answer \<open>result\<close> to the returned dict.\<close>

definition normalize :: "string \<Rightarrow> pyfloat \<Rightarrow> json \<Rightarrow> exn + verdict" where
  "normalize fname thr result =
     then_do (py_in ''data'' result) (\<lambda>has_data.
     if \<not> has_data then Inl invalid_response_format else
     then_do (py_getitem result ''data'') (\<lambda>data.
     then_do (py_len data) (\<lambda>n.
     if \<not> n > 0 then Inl invalid_response_format else
     then_do (py_getitem0 data) (\<lambda>detection_data.
     then_do (py_get detection_data ''is_ai_generated'' (JInt 0)) (\<lambda>ai_generated_score.
     then_do (py_get detection_data ''possible_sources'' (JObj [])) (\<lambda>possible_sources.
     then_do (py_items possible_sources) (\<lambda>items.
     then_do (py_sorted_reverse items) (\<lambda>sorted_items.
     then_do (round_score ai_generated_score) (\<lambda>rounded.
     then_do (format_sources (take 3 sorted_items)) (\<lambda>parts.
     build_verdict fname thr ai_generated_score (fst rounded) (snd rounded)
       (take 3 sorted_items) parts))))))))))"

section \<open>\<^verbatim>\<open>detect_deepfake\<close>\<close>

text \<open>
  The upload: \<^verbatim>\<open>file.filename\<close> and the bytes that \<^verbatim>\<open>file.read()\<close> returns. The upload
  carries a file name (the framework allows none, on which \<^verbatim>\<open>splitext\<close> raises).
\<close>

record upload_file =
  file_name :: string
  file_bytes :: "byte list"

text \<open>Line 81, \<^verbatim>\<open>0 <= threshold <= 1\<close>, between the ints 0 and 1.\<close>

definition threshold_ok :: "pyfloat \<Rightarrow> bool" where
  "threshold_ok thr = (num_le (PInt 0) (PFloat thr) \<and> num_le (PFloat thr) (PInt 1))"

definition extension :: "string \<Rightarrow> string" where
  "extension fname = lower (snd (splitext fname))"

definition extension_ok :: "string \<Rightarrow> bool" where
  "extension_ok fname = (extension fname \<in> set [''.jpg'', ''.jpeg'', ''.png''])"

definition mime_type_of :: "string \<Rightarrow> string" where
  "mime_type_of ext = (if ext \<in> set [''.jpg'', ''.jpeg''] then ''image/jpeg'' else ''image/png'')"

text \<open>\<^verbatim>\<open>not os.getenv('NVIDIA_API_KEY')\<close> holds for \<^verbatim>\<open>None\<close> and for the empty string.\<close>

definition key_is_set :: "string option \<Rightarrow> bool" where
  "key_is_set key = (case key of None \<Rightarrow> False | Some k \<Rightarrow> k \<noteq> [])"

text \<open>
  Lines 124 to 144: the body and headers of the scoring request. Below 180000 encoded
  characters the image travels inline; otherwise \<^verbatim>\<open>upload_asset\<close> runs first and the
  program puts what it returned, \<^verbatim>\<open>asset_id\<close>, into the body (through an f-string) and
  into the header \<^verbatim>\<open>NVCF-INPUT-ASSET-REFERENCES\<close>. What \<^verbatim>\<open>requests.post\<close> does with that
  header depends on the value: a string is a header value; \<^verbatim>\<open>None\<close> makes the library
  drop the header, and the f-string has printed it as "None"; any other value makes the
  library raise \<^verbatim>\<open>InvalidHeader\<close> before sending.
\<close>

definition inline_submission :: "string option \<Rightarrow> string \<Rightarrow> string \<Rightarrow> json \<times> (string \<times> string) list" where
  "inline_submission key mime_type image_b64 =
     (JObj [(''input'', JArr [JStr (''data:'' @ mime_type @ '';base64,'' @ image_b64)])],
      [(''Content-Type'', ''application/json''),
       (''Authorization'', HEADER_AUTH key),
       (''Accept'', ''application/json'')])"

definition asset_submission :: "string option \<Rightarrow> string \<Rightarrow> json \<Rightarrow> exn + json \<times> (string \<times> string) list" where
  "asset_submission key mime_type asset_id =
     (case asset_id of
        JStr a \<Rightarrow>
          Inr (JObj [(''input'', JArr [JStr (''data:'' @ mime_type @ '';asset_id,'' @ a)])],
               [(''Content-Type'', ''application/json''),
                (''NVCF-INPUT-ASSET-REFERENCES'', a),
                (''Authorization'', HEADER_AUTH key)])
      | JNull \<Rightarrow>
          Inr (JObj [(''input'', JArr [JStr (''data:'' @ mime_type @ '';asset_id,None'')])],
               [(''Content-Type'', ''application/json''),
                (''Authorization'', HEADER_AUTH key)])
      | _ \<Rightarrow> Inl (Refused InvalidHeader))"

definition submission ::
  "string option \<Rightarrow> world \<Rightarrow> byte list \<Rightarrow> string \<Rightarrow> string \<Rightarrow> request list
     \<Rightarrow> (exn + json \<times> (string \<times> string) list) \<times> request list" where
  "submission key w input_data mime_type image_b64 trace =
     (if length image_b64 < 180000 then (Inr (inline_submission key mime_type image_b64), trace)
      else
        (case upload_asset key w input_data ''Input Image'' mime_type trace of
           (Inl e, trace1) \<Rightarrow> (Inl e, trace1)
         | (Inr asset_id, trace1) \<Rightarrow> (asset_submission key mime_type asset_id, trace1)))"

definition scoring_request :: "json \<times> (string \<times> string) list \<Rightarrow> request" where
  "scoring_request sub =
     \<lparr>meth = POST, url = JStr INVOKE_URL, headers = snd sub, body = JsonBody (fst sub)\<rparr>"

text \<open>
  Lines 151 to 189: what becomes of the scoring call. The call raised or returned a
  response; an error status raises, a body that is not JSON raises, and the parsed
  result is post-processed.
\<close>

definition read_answer :: "string \<Rightarrow> pyfloat \<Rightarrow> exn + response \<Rightarrow> exn + verdict" where
  "read_answer fname thr r =
     then_do r (\<lambda>response.
     then_do (raise_for_status response) (\<lambda>_.
     then_do (response_json response) (\<lambda>result.
     normalize fname thr result)))"

text \<open>
  The body of the outer \<^verbatim>\<open>try\<close>. The temporary file holds the uploaded bytes and is read
  back unchanged; creating and removing it is not modelled.
\<close>

definition try_block ::
  "string option \<Rightarrow> world \<Rightarrow> upload_file \<Rightarrow> pyfloat \<Rightarrow> (exn + verdict) \<times> request list" where
  "try_block key w file thr =
     (if \<not> threshold_ok thr
      then (Inl (HTTPException 400 (Lit ''Threshold must be between 0 and 1'')), [])
      else if \<not> extension_ok (file_name file)
      then (Inl (HTTPException 400
                  (Lit ''Invalid file type. Only jpg, jpeg, and png are supported.'')), [])
      else if \<not> key_is_set key
      then (Inl (HTTPException 500
                  (Lit ''Server configuration error: NVIDIA API key not set'')), [])
      else
        (case submission key w (file_bytes file) (mime_type_of (extension (file_name file)))
                (b64encode (file_bytes file)) [] of
           (Inl e, trace) \<Rightarrow> (Inl e, trace)
         | (Inr sub, trace) \<Rightarrow>
             (let (r, trace1) = requests_call w (scoring_request sub) trace
              in (read_answer (file_name file) thr r, trace1))))"

text \<open>
  The handler \<^verbatim>\<open>except Exception as e\<close> catches whatever the \<^verbatim>\<open>try\<close> raised, the
  \<^verbatim>\<open>HTTPException\<close>s raised inside it included, and raises a new one with status 500.
\<close>

definition except_handler :: "exn + verdict \<Rightarrow> exn + verdict" where
  "except_handler r = (case r of Inl e \<Rightarrow> Inl (HTTPException 500 (StrOf e)) | Inr d \<Rightarrow> Inr d)"

text \<open>
  The default of \<^verbatim>\<open>threshold: float = 0.016\<close> is the double that the literal denotes,
  which is not the decimal 0.016 but the nearest double, a little above it.
\<close>

definition default_threshold :: pyfloat where
  "default_threshold = Finite (1152921504606847 / 72057594037927936)"

text \<open>
  The endpoint, with the optional \<^verbatim>\<open>threshold\<close>. The result is what the caller gets,
  paired with the trace of requests sent.
\<close>

definition detect_deepfake ::
  "string option \<Rightarrow> world \<Rightarrow> upload_file \<Rightarrow> pyfloat option \<Rightarrow> (exn + verdict) \<times> request list" where
  "detect_deepfake key w file threshold_param =
     (let thr = (case threshold_param of None \<Rightarrow> default_threshold | Some t \<Rightarrow> t);
          (r, trace) = try_block key w file thr
      in (except_handler r, trace))"

section \<open>Observations on a run\<close>

text \<open>
  A scoring request is a POST to \<^verbatim>\<open>INVOKE_URL\<close>. When the trace of a run ends with one,
  \<open>scoring_outcome\<close> is what the world did with it.
\<close>

definition is_scoring :: "request \<Rightarrow> bool" where
  "is_scoring rq = (meth rq = POST \<and> url rq = JStr INVOKE_URL)"

definition scoring_outcome :: "world \<Rightarrow> request list \<Rightarrow> outcome option" where
  "scoring_outcome w trace =
     (if trace \<noteq> [] \<and> is_scoring (last trace) then Some (w (butlast trace) (last trace)) else None)"

text \<open>
  What a call followed by \<^verbatim>\<open>raise_for_status\<close> raises, if anything: the exception of
  the call itself, or the \<^verbatim>\<open>HTTPError\<close> of an error status.
\<close>

definition call_failure :: "outcome \<Rightarrow> exn option" where
  "call_failure oc =
     (case then_do (returned oc) raise_for_status of Inl e \<Rightarrow> Some e | Inr _ \<Rightarrow> None)"

text \<open>The exceptions that are error responses of the framework.\<close>

fun is_http_exception :: "exn \<Rightarrow> bool" where
  "is_http_exception (HTTPException s d) = True"
| "is_http_exception _ = False"

text \<open>
  The score and the sources that lines 157 and 158 read from the first entry \<open>d\<close> of
  the container, with their defaults.
\<close>

definition score_of :: "(string \<times> json) list \<Rightarrow> json" where
  "score_of d = (case map_of d ''is_ai_generated'' of None \<Rightarrow> JInt 0 | Some x \<Rightarrow> x)"

definition sources_of :: "(string \<times> json) list \<Rightarrow> json" where
  "sources_of d = (case map_of d ''possible_sources'' of None \<Rightarrow> JObj [] | Some x \<Rightarrow> x)"

text \<open>
  The conditions under which nothing raises between the ranking and the return: the
  weights are numbers that \<^verbatim>\<open>.2f\<close> can print, and the score is a number whose
  percentage \<^verbatim>\<open>str\<close> can print.
\<close>

definition printable_weight :: "json \<Rightarrow> bool" where
  "printable_weight x = (is_number x \<and> \<not> isl (fixed2 (times100 (number x))))"

definition printable_score :: "json \<Rightarrow> bool" where
  "printable_score x = (is_number x \<and> \<not> isl (shown (py_round (times100 (number x)) 2)))"

text \<open>
  What "ranked by descending weight, ties in the order of the mapping" says of a
  ranking of the items of a dict, in terms of Python's comparison of the weights: the
  same items, no item before one of greater weight, and the items that compare equal to
  a given one in the order they had.
\<close>

definition item_eq :: "string \<times> json \<Rightarrow> string \<times> json \<Rightarrow> bool" where
  "item_eq x y = (\<not> item_lt x y \<and> \<not> item_lt y x)"

definition stable_descending :: "(string \<times> json) list \<Rightarrow> (string \<times> json) list \<Rightarrow> bool" where
  "stable_descending items ranked \<longleftrightarrow>
     mset ranked = mset items \<and>
     sorted_wrt (\<lambda>a b. \<not> item_lt a b) ranked \<and>
     (\<forall>x \<in> set items. filter (\<lambda>y. item_eq y x) ranked = filter (\<lambda>y. item_eq y x) items)"

section \<open>Example worlds and uploads\<close>

text \<open>
  Concrete inputs on which the theorems below are run. A world that answers every
  call with status 200 and a fixed body, and a small upload with an upper-case
  extension.
\<close>

definition ok_response :: "string \<Rightarrow> json \<Rightarrow> response" where
  "ok_response u j = \<lparr>status_code = 200, reason = ''OK'', final_url = u, json_body = Inr j\<rparr>"

definition answering :: "json \<Rightarrow> world" where
  "answering j tr rq = Answered (ok_response INVOKE_URL j)"

definition cat_png :: upload_file where
  "cat_png = \<lparr>file_name = ''cat.PNG'', file_bytes = [137, 80, 78, 71]\<rparr>"

text \<open>
  An upload of 135000 bytes, whose encoding has exactly 180000 characters, and a world
  that reserves an asset with a given id, accepts the transfer and answers the scoring
  request with a fixed body.
\<close>

definition big_image :: "byte list" where
  "big_image = replicate 135000 0"

definition big_jpeg :: upload_file where
  "big_jpeg = \<lparr>file_name = ''scan.jpeg'', file_bytes = big_image\<rparr>"

definition reservation :: "json \<Rightarrow> json" where
  "reservation asset_id =
     JObj [(''uploadUrl'', JStr ''https://assets.example/put/1''), (''assetId'', asset_id)]"

definition storing :: "json \<Rightarrow> json \<Rightarrow> world" where
  "storing asset_id j tr rq =
     (if url rq = JStr ASSETS_URL then Answered (ok_response ASSETS_URL (reservation asset_id))
      else if meth rq = PUT
      then Answered \<lparr>status_code = 200, reason = ''OK'',
                      final_url = ''https://assets.example/put/1'', json_body = Inl (NotJSON [])\<rparr>
      else Answered (ok_response INVOKE_URL j))"


definition dropping_transfer :: world where
  "dropping_transfer tr rq =
     (if url rq = JStr ASSETS_URL
      then Answered (ok_response ASSETS_URL (reservation (JStr ''asset-1'')))
      else Failed ''Connection aborted.'')"

definition dropping_scoring :: world where
  "dropping_scoring tr rq =
     (if url rq = JStr ASSETS_URL
      then Answered (ok_response ASSETS_URL (reservation (JStr ''asset-1'')))
      else if meth rq = PUT
      then Answered \<lparr>status_code = 200, reason = ''OK'',
                      final_url = ''https://assets.example/put/1'', json_body = Inl (NotJSON [])\<rparr>
      else Failed ''Connection aborted.'')"

text \<open>Answers with a score and a dict of sources, and doubles read from decimals.\<close>

definition sources_response :: "json \<Rightarrow> (string \<times> json) list \<Rightarrow> json" where
  "sources_response score srcs =
     JObj [(''data'', JArr [JObj [(''is_ai_generated'', score), (''possible_sources'', JObj srcs)]])]"

definition score_response :: "json \<Rightarrow> json" where
  "score_response score = JObj [(''data'', JArr [JObj [(''is_ai_generated'', score)]])]"

text \<open>
  What "rounded to the nearest, ties to even" says of an integer \<open>k\<close> and a rational
  \<open>x\<close>, to be compared with the rounding of the source.
\<close>

definition nearest_even :: "rat \<Rightarrow> int \<Rightarrow> bool" where
  "nearest_even x k \<longleftrightarrow> \<bar>x - of_int k\<bar> \<le> 1 / 2 \<and> (\<bar>x - of_int k\<bar> = 1 / 2 \<longrightarrow> even k)"

text \<open>
  The doubles nearest to 0.0165, 1.65 and 0.017, and sources with a NaN weight between
  the doubles 0.125 and 0.5.
\<close>

definition double_0_0165 :: pyfloat where
  "double_0_0165 = Finite (1188950301625811 / 72057594037927936)"

definition double_1_65 :: pyfloat where
  "double_1_65 = Finite (3715469692580659 / 2251799813685248)"

definition double_0_017 :: pyfloat where
  "double_0_017 = Finite (1224979098644775 / 72057594037927936)"

definition nan_sources :: "(string \<times> json) list" where
  "nan_sources = [(''a'', JFloat (Finite (1 / 8))), (''b'', JFloat NaN), (''c'', JFloat (Finite (1 / 2)))]"

definition tied_sources :: "(string \<times> json) list" where
  "tied_sources =
     [(''x'', JFloat (Finite (1 / 4))), (''y'', JFloat (Finite (3 / 4))),
      (''z'', JInt 0), (''u'', JFloat (Finite (1 / 4))), (''v'', JFloat NegZero)]"

section \<open>The trace of a run\<close>

text \<open>
  The encoding of \<open>n\<close> bytes has \<open>4 * \<lceil>n / 3\<rceil>\<close> characters. The upload makes at most
  two requests, neither of them a scoring request. A run that is rejected before the
  submission sends nothing; a run whose scoring request was sent ends its trace with
  it, and what it returns is read off the world's answer to it.
\<close>

lemma length_b64encode: "length (b64encode bs) = 4 * ((length bs + 2) div 3)"
proof (induction bs rule: b64encode.induct)
  case (4 a b c rest)
  have "(length (a # b # c # rest) + 2) div 3 = Suc ((length rest + 2) div 3)"
    by simp
  with 4 show ?case
    by (simp add: Let_def)
qed (simp_all add: Let_def)

lemma length_big_image: "length big_image = 135000"
  by (simp add: big_image_def)

lemma big_image_encoded: "length (b64encode big_image) = 180000"
  by (simp add: length_b64encode length_big_image)

lemma submission_inline:
  "length b64 < 180000 \<Longrightarrow>
   submission key w bs m b64 tr = (Inr (inline_submission key m b64), tr)"
  by (simp add: submission_def)

lemma submission_asset:
  "180000 \<le> length b64 \<Longrightarrow>
   submission key w bs m b64 tr =
     (case upload_asset key w bs ''Input Image'' m tr of
        (Inl e, tr1) \<Rightarrow> (Inl e, tr1)
      | (Inr asset_id, tr1) \<Rightarrow> (asset_submission key m asset_id, tr1))"
  by (simp add: submission_def)

lemma urls_differ: "ASSETS_URL \<noteq> INVOKE_URL"
  by (simp add: ASSETS_URL_def INVOKE_URL_def)

lemma reserve_not_scoring: "\<not> is_scoring (reserve_request key desc m)"
  by (simp add: is_scoring_def reserve_request_def urls_differ)

lemma transfer_not_scoring: "\<not> is_scoring (transfer_request u bs desc m)"
  by (simp add: is_scoring_def transfer_request_def)

lemma scoring_request_is_scoring: "is_scoring (scoring_request sub)"
  by (simp add: is_scoring_def scoring_request_def)

lemma returned_Inr [simp]: "returned oc = Inr r \<longleftrightarrow> oc = Answered r"
  by (cases oc) auto

lemma upload_asset_trace:
  "snd (upload_asset key w bs desc m tr) = tr \<or>
   snd (upload_asset key w bs desc m tr) = tr @ [reserve_request key desc m] \<or>
   (\<exists>u. snd (upload_asset key w bs desc m tr)
          = tr @ [reserve_request key desc m, transfer_request u bs desc m])"
  by (auto simp: upload_asset_def requests_call_def Let_def then_do_def
           split: sum.splits prod.splits if_splits)

lemma upload_asset_no_scoring:
  "\<forall>rq \<in> set tr. \<not> is_scoring rq \<Longrightarrow>
   \<forall>rq \<in> set (snd (upload_asset key w bs desc m tr)). \<not> is_scoring rq"
  using upload_asset_trace [of key w bs desc m tr]
  by (auto simp: reserve_not_scoring transfer_not_scoring)

lemma upload_asset_last_not_scoring:
  "snd (upload_asset key w bs desc m []) = [] \<or>
   \<not> is_scoring (last (snd (upload_asset key w bs desc m [])))"
  using upload_asset_trace [of key w bs desc m "[]"]
  by (auto simp: reserve_not_scoring transfer_not_scoring)

lemma detect_bad_threshold:
  "\<not> threshold_ok thr \<Longrightarrow>
   detect_deepfake key w f (Some thr) =
     (Inl (HTTPException 500 (StrOf (HTTPException 400
        (Lit ''Threshold must be between 0 and 1'')))), [])"
  by (simp add: detect_deepfake_def try_block_def except_handler_def)

lemma detect_bad_extension:
  "threshold_ok thr \<Longrightarrow> \<not> extension_ok (file_name f) \<Longrightarrow>
   detect_deepfake key w f (Some thr) =
     (Inl (HTTPException 500 (StrOf (HTTPException 400
        (Lit ''Invalid file type. Only jpg, jpeg, and png are supported.'')))), [])"
  by (simp add: detect_deepfake_def try_block_def except_handler_def)

lemma detect_no_key:
  "threshold_ok thr \<Longrightarrow> extension_ok (file_name f) \<Longrightarrow> \<not> key_is_set key \<Longrightarrow>
   detect_deepfake key w f (Some thr) =
     (Inl (HTTPException 500 (StrOf (HTTPException 500
        (Lit ''Server configuration error: NVIDIA API key not set'')))), [])"
  by (simp add: detect_deepfake_def try_block_def except_handler_def)

lemma detect_submission_failed:
  "threshold_ok thr \<Longrightarrow> extension_ok (file_name f) \<Longrightarrow> key_is_set key \<Longrightarrow>
   submission key w (file_bytes f) (mime_type_of (extension (file_name f)))
     (b64encode (file_bytes f)) [] = (Inl e, tr) \<Longrightarrow>
   detect_deepfake key w f (Some thr) = (Inl (HTTPException 500 (StrOf e)), tr)"
  by (simp add: detect_deepfake_def try_block_def except_handler_def)

lemma detect_submitted:
  "threshold_ok thr \<Longrightarrow> extension_ok (file_name f) \<Longrightarrow> key_is_set key \<Longrightarrow>
   submission key w (file_bytes f) (mime_type_of (extension (file_name f)))
     (b64encode (file_bytes f)) [] = (Inr sub, tr) \<Longrightarrow>
   detect_deepfake key w f (Some thr) =
     (except_handler (read_answer (file_name f) thr (returned (w tr (scoring_request sub)))),
      if is_sent (w tr (scoring_request sub)) then tr @ [scoring_request sub] else tr)"
  by (simp add: detect_deepfake_def try_block_def requests_call_def)

lemma submission_trace:
  "snd (submission key w bs m b64 []) = [] \<or>
   snd (submission key w bs m b64 []) = snd (upload_asset key w bs ''Input Image'' m [])"
  by (cases "upload_asset key w bs ''Input Image'' m []")
     (auto simp: submission_def split: sum.splits)

lemma submission_last_not_scoring:
  "snd (submission key w bs m b64 []) = [] \<or>
   \<not> is_scoring (last (snd (submission key w bs m b64 [])))"
  using submission_trace [of key w bs m b64] upload_asset_last_not_scoring [of key w bs "''Input Image''" m]
  by auto

lemma submission_failed_big:
  "submission key w bs m b64 [] = (Inl e, tr) \<Longrightarrow>
   180000 \<le> length b64 \<and> tr = snd (upload_asset key w bs ''Input Image'' m [])"
  by (cases "upload_asset key w bs ''Input Image'' m []")
     (auto simp: submission_def split: if_splits sum.splits)

lemma detect_calls_valid:
  "snd (detect_deepfake key w f (Some thr)) \<noteq> [] \<Longrightarrow>
   threshold_ok thr \<and> extension_ok (file_name f) \<and> key_is_set key"
  by (auto simp: detect_deepfake_def try_block_def split: if_splits)

lemma detect_verdict_valid:
  "fst (detect_deepfake key w f (Some thr)) = Inr vd \<Longrightarrow>
   threshold_ok thr \<and> extension_ok (file_name f) \<and> key_is_set key"
  by (auto simp: detect_deepfake_def try_block_def except_handler_def split: if_splits)

lemma detect_scored:
  assumes "scoring_outcome w (snd (detect_deepfake key w f (Some thr))) = Some oc"
  shows "fst (detect_deepfake key w f (Some thr))
           = except_handler (read_answer (file_name f) thr (returned oc))
         \<and> is_sent oc
         \<and> threshold_ok thr \<and> extension_ok (file_name f) \<and> key_is_set key"
proof -
  let ?d = "detect_deepfake key w f (Some thr)"
  let ?sub = "submission key w (file_bytes f) (mime_type_of (extension (file_name f)))
     (b64encode (file_bytes f)) []"
  have ok: "threshold_ok thr" "extension_ok (file_name f)" "key_is_set key"
    using assms detect_calls_valid [of key w f thr]
    by (auto simp: scoring_outcome_def split: if_splits)
  obtain s tr where sub: "?sub = (s, tr)"
    by (cases ?sub)
  have tr: "tr = [] \<or> \<not> is_scoring (last tr)"
    using submission_last_not_scoring [of key w "file_bytes f"
        "mime_type_of (extension (file_name f))" "b64encode (file_bytes f)"] sub
    by simp
  show ?thesis
  proof (cases s)
    case (Inl e)
    with sub ok have "snd ?d = tr"
      by (simp add: detect_submission_failed)
    with tr have "scoring_outcome w (snd ?d) = None"
      by (auto simp: scoring_outcome_def)
    with assms show ?thesis by simp
  next
    case (Inr sb)
    with sub ok have d: "?d = (except_handler (read_answer (file_name f) thr
        (returned (w tr (scoring_request sb)))),
        if is_sent (w tr (scoring_request sb)) then tr @ [scoring_request sb] else tr)"
      by (simp add: detect_submitted)
    show ?thesis
    proof (cases "is_sent (w tr (scoring_request sb))")
      case True
      with d assms have "oc = w tr (scoring_request sb)"
        by (simp add: scoring_outcome_def scoring_request_is_scoring)
      with d ok True show ?thesis by simp
    next
      case False
      with d have "snd ?d = tr" by simp
      with tr have "scoring_outcome w (snd ?d) = None"
        by (auto simp: scoring_outcome_def)
      with assms show ?thesis by simp
    qed
  qed
qed

lemma detect_verdict_scored:
  assumes "fst (detect_deepfake key w f (Some thr)) = Inr vd"
  shows "\<exists>r result. scoring_outcome w (snd (detect_deepfake key w f (Some thr))) = Some (Answered r)
           \<and> \<not> (400 \<le> status_code r \<and> status_code r < 600)
           \<and> json_body r = Inr result
           \<and> normalize (file_name f) thr result = Inr vd"
proof -
  let ?d = "detect_deepfake key w f (Some thr)"
  let ?sub = "submission key w (file_bytes f) (mime_type_of (extension (file_name f)))
     (b64encode (file_bytes f)) []"
  have ok: "threshold_ok thr" "extension_ok (file_name f)" "key_is_set key"
    using assms detect_verdict_valid [of key w f thr vd]
    by auto
  obtain s tr where sub: "?sub = (s, tr)"
    by (cases ?sub)
  show ?thesis
  proof (cases s)
    case (Inl e)
    with sub ok assms show ?thesis
      by (simp add: detect_submission_failed)
  next
    case (Inr sb)
    let ?oc = "w tr (scoring_request sb)"
    from Inr sub ok have d: "?d = (except_handler (read_answer (file_name f) thr (returned ?oc)),
        if is_sent ?oc then tr @ [scoring_request sb] else tr)"
      by (simp add: detect_submitted)
    with assms have ans: "except_handler (read_answer (file_name f) thr (returned ?oc)) = Inr vd"
      by simp
    then obtain r where r: "?oc = Answered r"
      by (cases ?oc) (auto simp: except_handler_def read_answer_def then_do_def)
    with d have so: "scoring_outcome w (snd ?d) = Some (Answered r)"
      by (simp add: scoring_outcome_def scoring_request_is_scoring)
    from ans r show ?thesis
      unfolding so
      by (cases "json_body r")
         (auto simp: except_handler_def read_answer_def then_do_def raise_for_status_def
            response_json_def split: sum.splits if_splits parse_error.splits)
  qed
qed

lemma detect_answered:
  assumes "scoring_outcome w (snd (detect_deepfake key w f (Some thr))) = Some (Answered r)"
    and "\<not> (400 \<le> status_code r \<and> status_code r < 600)"
    and "json_body r = Inr result"
  shows "fst (detect_deepfake key w f (Some thr)) = except_handler (normalize (file_name f) thr result)"
  using detect_scored [OF assms(1)] assms(2,3)
  by (simp add: read_answer_def then_do_def raise_for_status_def response_json_def)


section \<open>Ranking\<close>

text \<open>
  The sort returns a permutation of the items. When no weight is NaN the reversed
  stable sort is a stable descending ranking, and the only one.
\<close>

lemma item_lt_rank:
  "\<not> is_nan (weight x) \<Longrightarrow> \<not> is_nan (weight y) \<Longrightarrow>
   item_lt x y \<longleftrightarrow> num_rank (weight x) < num_rank (weight y)"
  by (simp add: item_lt_def num_lt_def)

lemma item_eq_rank:
  "\<not> is_nan (weight x) \<Longrightarrow> \<not> is_nan (weight y) \<Longrightarrow>
   item_eq x y \<longleftrightarrow> num_rank (weight x) = num_rank (weight y)"
  by (auto simp: item_eq_def item_lt_rank)

lemma mset_take_drop: "mset (take i xs) + mset (drop i xs) = mset xs"
  by (metis append_take_drop_id mset_append)

lemma mset_binary_insert: "mset (binary_insert lt xs p) = add_mset p (mset xs)"
  by (simp add: binary_insert_def Let_def mset_take_drop)

lemma mset_foldl_binary_insert:
  "mset (foldl (binary_insert lt) acc xs) = mset acc + mset xs"
  by (induction xs arbitrary: acc) (simp_all add: mset_binary_insert)

lemma mset_sort_run:
  "mset (foldl (binary_insert lt) (if c then rev (take n zs) else take n zs) (drop n zs)) = mset zs"
  by (simp add: mset_foldl_binary_insert mset_take_drop)

lemma mset_listsort: "mset (listsort lt xs) = mset xs"
proof (cases xs)
  case Nil
  then show ?thesis by simp
next
  case (Cons a ys)
  show ?thesis
  proof (cases ys)
    case Nil
    with Cons show ?thesis by simp
  next
    case (Cons b rest)
    with \<open>xs = a # ys\<close> show ?thesis
      by (simp only: listsort.simps Let_def mset_sort_run)
  qed
qed

lemma set_sorted_reverse: "set (sorted_reverse items) = set items"
proof -
  have "mset (sorted_reverse items) = mset items"
    by (simp add: sorted_reverse_def mset_listsort)
  then show ?thesis by (rule mset_eq_setD)
qed

lemma length_sorted_reverse: "length (sorted_reverse items) = length items"
proof -
  have "mset (sorted_reverse items) = mset items"
    by (simp add: sorted_reverse_def mset_listsort)
  then show ?thesis by (rule mset_eq_length)
qed

lemma sorted_reverse_stable:
  assumes "list_all (\<lambda>x. \<not> is_nan (weight x)) items"
  shows "stable_descending items (sorted_reverse items)"
proof -
  let ?k = "\<lambda>x::string \<times> json. num_rank (weight x)"
  let ?r = "rev (sort_key ?k (rev items))"
  from assms have nn: "\<And>x. x \<in> set items \<Longrightarrow> \<not> is_nan (weight x)"
    by (simp add: list_all_iff)
  have r: "sorted_reverse items = ?r"
    using assms by (simp add: sorted_reverse_def)
  have setr: "set ?r = set items" by simp
  have "sorted (map ?k (sort_key ?k (rev items)))"
    by simp
  then have "sorted_wrt (\<lambda>a b. ?k a \<le> ?k b) (sort_key ?k (rev items))"
    by (simp add: sorted_map)
  then have "sorted_wrt (\<lambda>a b. ?k b \<le> ?k a) ?r"
    by (simp add: sorted_wrt_rev)
  then have s: "sorted_wrt (\<lambda>a b. \<not> item_lt a b) ?r"
  proof (rule sorted_wrt_mono_rel [rotated])
    fix x y assume "x \<in> set ?r" "y \<in> set ?r" "?k y \<le> ?k x"
    then show "\<not> item_lt x y"
      using nn by (simp add: item_lt_rank)
  qed
  have f: "filter (\<lambda>y. item_eq y x) ?r = filter (\<lambda>y. item_eq y x) items" if "x \<in> set items" for x
  proof -
    have "filter (\<lambda>y. item_eq y x) ?r = filter (\<lambda>y. ?k y = ?k x) ?r"
      by (rule filter_cong) (use nn that in \<open>simp_all add: item_eq_rank\<close>)
    also have "\<dots> = filter (\<lambda>y. ?k y = ?k x) items"
      by (simp add: rev_filter [symmetric] sort_key_stable)
    also have "\<dots> = filter (\<lambda>y. item_eq y x) items"
      by (rule filter_cong) (use nn that in \<open>simp_all add: item_eq_rank\<close>)
    finally show ?thesis .
  qed
  from s f show ?thesis
    unfolding r by (simp add: stable_descending_def)
qed

lemma stable_descending_unique:
  assumes "list_all (\<lambda>x. \<not> is_nan (weight x)) items"
    and "stable_descending items ranked"
  shows "ranked = sorted_reverse items"
proof -
  let ?k = "\<lambda>x::string \<times> json. num_rank (weight x)"
  from assms(1) have nn: "\<And>x. x \<in> set items \<Longrightarrow> \<not> is_nan (weight x)"
    by (simp add: list_all_iff)
  from assms(2) have m: "mset ranked = mset items"
    and s: "sorted_wrt (\<lambda>a b. \<not> item_lt a b) ranked"
    and f: "\<And>x. x \<in> set items \<Longrightarrow>
              filter (\<lambda>y. item_eq y x) ranked = filter (\<lambda>y. item_eq y x) items"
    by (simp_all add: stable_descending_def)
  from m have sets: "set ranked = set items" by (rule mset_eq_setD)
  have "sort_key ?k (rev items) = rev ranked"
  proof (rule properties_for_sort_key)
    show "mset (rev ranked) = mset (rev items)" using m by simp
    show "filter (\<lambda>x. ?k x' = ?k x) (rev ranked) = filter (\<lambda>x. ?k x' = ?k x) (rev items)"
      if "x' \<in> set (rev ranked)" for x'
    proof -
      from that sets have x': "x' \<in> set items" by simp
      have "filter (\<lambda>x. ?k x' = ?k x) ranked = filter (\<lambda>y. item_eq y x') ranked"
        by (rule filter_cong) (use nn x' sets in \<open>auto simp: item_eq_rank\<close>)
      also have "\<dots> = filter (\<lambda>y. item_eq y x') items"
        by (rule f [OF x'])
      also have "\<dots> = filter (\<lambda>x. ?k x' = ?k x) items"
        by (rule filter_cong) (use nn x' in \<open>auto simp: item_eq_rank\<close>)
      finally show ?thesis
        by (simp add: rev_filter [symmetric])
    qed
    from s have "sorted_wrt (\<lambda>a b. ?k b \<le> ?k a) ranked"
    proof (rule sorted_wrt_mono_rel [rotated])
      fix x y assume "x \<in> set ranked" "y \<in> set ranked" "\<not> item_lt x y"
      then show "?k y \<le> ?k x"
        using nn sets by (simp add: item_lt_rank)
    qed
    then have "sorted_wrt (\<lambda>a b. ?k a \<le> ?k b) (rev ranked)"
      by (simp add: sorted_wrt_rev)
    then show "sorted (map ?k (rev ranked))"
      by (simp add: sorted_map)
  qed
  then show ?thesis
    using assms(1) by (simp add: sorted_reverse_def)
qed


section \<open>The normaliser\<close>

text \<open>
  What the normaliser computes on a response that carries the container, when it
  returns, and what it returns.
\<close>

lemma format_source_printable:
  "printable_weight (snd x) \<Longrightarrow> \<exists>p. format_source x = Inr p"
  by (cases "fixed2 (times100 (weight x))")
     (auto simp: printable_weight_def format_source_def then_do_def weight_def)

lemma format_source_returns:
  "format_source x = Inr p \<Longrightarrow> printable_weight (snd x)"
  by (cases "fixed2 (times100 (weight x))")
     (auto simp: printable_weight_def format_source_def then_do_def weight_def split: if_splits)

lemma format_sources_printable:
  "list_all (\<lambda>x. printable_weight (snd x)) xs \<Longrightarrow> \<exists>parts. format_sources xs = Inr parts"
proof (induction xs)
  case Nil
  then show ?case by simp
next
  case (Cons x xs)
  then obtain p parts where "format_source x = Inr p" "format_sources xs = Inr parts"
    using format_source_printable [of x] by auto
  then show ?case by (simp add: then_do_def)
qed

lemma format_sources_returns:
  "format_sources xs = Inr parts \<Longrightarrow> list_all (\<lambda>x. printable_weight (snd x)) xs"
proof (induction xs arbitrary: parts)
  case Nil
  then show ?case by simp
next
  case (Cons x xs)
  then show ?case
    by (auto simp: then_do_def split: sum.splits dest: format_source_returns)
qed

lemma printable_weight_number: "printable_weight x \<Longrightarrow> is_number x"
  by (simp add: printable_weight_def)

lemma printable_take_sorted:
  assumes "list_all (\<lambda>x. printable_weight (snd x)) items"
  shows "list_all (\<lambda>x. printable_weight (snd x)) (take n (sorted_reverse items))"
proof -
  have "set (take n (sorted_reverse items)) \<subseteq> set items"
    using set_take_subset [of n "sorted_reverse items"] by (simp add: set_sorted_reverse)
  with assms show ?thesis
    by (auto simp: list_all_iff)
qed

lemma build_verdict_fields:
  assumes "build_verdict fname thr sc pct cs first_three parts = Inr vd"
  shows "filename vd = fname \<and> is_ai_generated vd = num_lt (PFloat thr) (number sc) \<and>
         confidence vd = pct \<and> confidence_score vd = cs \<and> threshold vd = thr \<and>
         status vd = ''success'' \<and> top_sources vd = first_three \<and>
         shown pct = Inr (message vd ! 3) \<and>
         sources_message vd = Text ''Top sources: '' # join [Text '', ''] parts"
  using assms by (cases "shown pct") (auto simp: build_verdict_def then_do_def)

lemma build_verdict_printable:
  assumes "\<not> isl (shown pct)"
  shows "\<exists>vd. build_verdict fname thr sc pct cs first_three parts = Inr vd"
  using assms by (cases "shown pct") (auto simp: build_verdict_def then_do_def)

lemma normalize_container:
  assumes "map_of kvs ''data'' = Some (JArr (JObj d # rest))"
  shows "normalize fname thr (JObj kvs) =
     then_do (py_items (sources_of d)) (\<lambda>items.
     then_do (py_sorted_reverse items) (\<lambda>sorted_items.
     then_do (round_score (score_of d)) (\<lambda>rounded.
     then_do (format_sources (take 3 sorted_items)) (\<lambda>parts.
     build_verdict fname thr (score_of d) (fst rounded) (snd rounded)
       (take 3 sorted_items) parts))))"
  using assms by (simp add: normalize_def then_do_def score_of_def sources_of_def)

lemma normalize_numbers:
  assumes "map_of kvs ''data'' = Some (JArr (JObj d # rest))"
    and "sources_of d = JObj srcs" and "list_all (\<lambda>x. is_number (snd x)) srcs"
    and "is_number (score_of d)"
  shows "normalize fname thr (JObj kvs) =
     then_do (format_sources (take 3 (sorted_reverse srcs))) (\<lambda>parts.
     build_verdict fname thr (score_of d) (py_round (times100 (number (score_of d))) 2)
       (py_round (number (score_of d)) 3) (take 3 (sorted_reverse srcs)) parts)"
  using assms
  by (simp add: normalize_container then_do_def py_sorted_reverse_def round_score_def
      split: sum.splits)

lemma normalize_total:
  assumes "map_of kvs ''data'' = Some (JArr (JObj d # rest))"
    and "sources_of d = JObj srcs" and "list_all (\<lambda>x. printable_weight (snd x)) srcs"
    and "printable_score (score_of d)"
  shows "\<exists>vd. normalize fname thr (JObj kvs) = Inr vd"
proof -
  from assms(3) have num: "list_all (\<lambda>x. is_number (snd x)) srcs"
    by (auto simp: list_all_iff printable_weight_number)
  from assms(4) have sc: "is_number (score_of d)"
    and pr: "\<not> isl (shown (py_round (times100 (number (score_of d))) 2))"
    by (simp_all add: printable_score_def)
  obtain parts where "format_sources (take 3 (sorted_reverse srcs)) = Inr parts"
    using format_sources_printable [OF printable_take_sorted [OF assms(3)]] by blast
  then show ?thesis
    using normalize_numbers [OF assms(1,2) num sc, of fname thr]
      build_verdict_printable [OF pr]
    by (simp add: then_do_def)
qed

lemma normalize_returns:
  assumes "map_of kvs ''data'' = Some (JArr (JObj d # rest))"
    and "normalize fname thr (JObj kvs) = Inr vd"
  shows "\<exists>srcs parts. sources_of d = JObj srcs \<and> list_all (\<lambda>x. is_number (snd x)) srcs \<and>
           is_number (score_of d) \<and>
           format_sources (take 3 (sorted_reverse srcs)) = Inr parts \<and>
           build_verdict fname thr (score_of d) (py_round (times100 (number (score_of d))) 2)
             (py_round (number (score_of d)) 3) (take 3 (sorted_reverse srcs)) parts = Inr vd"
proof -
  from assms obtain srcs where s: "sources_of d = JObj srcs"
    by (cases "sources_of d") (auto simp: normalize_container then_do_def)
  from assms s obtain sorted_items where so: "py_sorted_reverse srcs = Inr sorted_items"
    by (cases "py_sorted_reverse srcs") (auto simp: normalize_container then_do_def)
  from assms s so have sc: "is_number (score_of d)"
    by (auto simp: normalize_container then_do_def round_score_def split: if_splits)
  from assms s so sc obtain parts where parts: "format_sources (take 3 sorted_items) = Inr parts"
    by (cases "format_sources (take 3 sorted_items)")
       (auto simp: normalize_container then_do_def round_score_def)
  have num: "list_all (\<lambda>x. is_number (snd x)) srcs"
  proof (rule ccontr)
    assume n: "\<not> list_all (\<lambda>x. is_number (snd x)) srcs"
    with so have str: "list_all (\<lambda>x. is_str (snd x)) srcs" and eq: "sorted_items = srcs"
      by (auto simp: py_sorted_reverse_def split: if_splits)
    from n obtain y ys where ys: "srcs = y # ys"
      by (cases srcs) auto
    with str have "is_str (snd y)" by simp
    then have "\<not> is_number (snd y)" by (cases "snd y") auto
    moreover from parts eq ys have "printable_weight (snd y)"
      by (auto simp: then_do_def split: sum.splits dest: format_source_returns)
    ultimately show False by (simp add: printable_weight_def)
  qed
  with so have "sorted_items = sorted_reverse srcs"
    by (simp add: py_sorted_reverse_def)
  with assms s sc num parts show ?thesis
    by (simp add: normalize_numbers then_do_def)
qed


section \<open>Thresholds, printing and failures\<close>

text \<open>
  The thresholds that pass validation are the doubles of \<open>[0,1]\<close>, the negative zero
  among them. An int of few digits is printed. The only \<^verbatim>\<open>HTTPException\<close> raised after
  validation and the key check is the one for an answer without results; every other
  failure is an exception of the HTTP library or of the Python runtime. An answer that
  post-processing accepts is an object whose \<^verbatim>\<open>data\<close> is a list starting with an object.
\<close>

lemma threshold_ok_iff:
  "threshold_ok thr \<longleftrightarrow> thr = NegZero \<or> (\<exists>t. thr = Finite t \<and> 0 \<le> t \<and> t \<le> 1)"
  by (cases thr) (auto simp: threshold_ok_def num_le_def)

lemma threshold_rank:
  assumes "threshold_ok thr"
  shows "\<exists>t. 0 \<le> t \<and> t \<le> 1 \<and> num_rank (PFloat thr) = (0, t) \<and> \<not> is_nan (PFloat thr)"
  using assms by (auto simp: threshold_ok_iff)

lemma zero_not_above_threshold: "threshold_ok thr \<Longrightarrow> \<not> num_lt (PFloat thr) (PInt 0)"
  by (auto simp: threshold_ok_iff num_lt_def)

lemma default_threshold_ok: "threshold_ok default_threshold"
  by (simp add: threshold_ok_def num_le_def default_threshold_def)

lemma default_threshold_literal: "to_double (16 / 1000) = default_threshold"
  by code_simp

lemma str_of_int_ok_small:
  assumes "k \<le> max_str_digits" and "\<bar>n\<bar> < 10 ^ k"
  shows "str_of_int_ok n"
proof -
  have "(10::int) ^ k \<le> 10 ^ max_str_digits"
    using assms(1) by (rule power_increasing) simp
  with assms(2) show ?thesis
    unfolding str_of_int_ok_def by linarith
qed

lemma str_of_int_ok_zero: "str_of_int_ok 0"
  using str_of_int_ok_small [of 0 0] by simp

lemma shown_zero: "shown (PInt 0) = Inr (Shown (PInt 0))"
  by (simp add: str_of_int_ok_zero)

lemma py_in_error: "py_in k j = Inl e \<Longrightarrow> \<not> is_http_exception e"
  by (cases j) auto

lemma py_getitem_error: "py_getitem j k = Inl e \<Longrightarrow> \<not> is_http_exception e"
  by (cases j) (auto split: option.splits)

lemma py_len_error: "py_len j = Inl e \<Longrightarrow> \<not> is_http_exception e"
  by (cases j) auto

lemma py_getitem0_error: "py_getitem0 j = Inl e \<Longrightarrow> \<not> is_http_exception e"
  by (induction j rule: py_getitem0.induct) auto

lemma py_get_error: "py_get j k d = Inl e \<Longrightarrow> \<not> is_http_exception e"
  by (cases j) auto

lemma py_items_error: "py_items j = Inl e \<Longrightarrow> \<not> is_http_exception e"
  by (cases j) auto

lemma py_sorted_reverse_error: "py_sorted_reverse xs = Inl e \<Longrightarrow> \<not> is_http_exception e"
  by (auto simp: py_sorted_reverse_def split: if_splits)

lemma round_score_error: "round_score j = Inl e \<Longrightarrow> \<not> is_http_exception e"
  by (auto simp: round_score_def split: if_splits)

lemma fixed2_error: "fixed2 x = Inl e \<Longrightarrow> \<not> is_http_exception e"
  by (cases x) (auto split: pyfloat.splits)

lemma then_do_raises:
  assumes "then_do m g = Inl e"
    and "\<And>e'. m = Inl e' \<Longrightarrow> P e'"
    and "\<And>x e'. m = Inr x \<Longrightarrow> g x = Inl e' \<Longrightarrow> P e'"
  shows "P e"
  using assms by (cases m) (auto simp: then_do_def)

lemma format_source_error: "format_source x = Inl e \<Longrightarrow> \<not> is_http_exception e"
  by (cases "fixed2 (times100 (weight x))")
     (auto simp: format_source_def then_do_def split: if_splits dest: fixed2_error)

lemma format_sources_error: "format_sources xs = Inl e \<Longrightarrow> \<not> is_http_exception e"
proof (induction xs arbitrary: e)
  case Nil
  then show ?case by simp
next
  case (Cons x xs)
  from Cons.prems show ?case
    unfolding format_sources.simps
    apply (rule then_do_raises)
     apply (simp add: format_source_error)
    apply (erule then_do_raises)
     apply (simp add: Cons.IH)
    apply simp
    done
qed

lemma shown_error: "shown x = Inl e \<Longrightarrow> \<not> is_http_exception e"
  by (cases x) (auto split: if_splits)

lemma build_verdict_error:
  "build_verdict fname thr sc pct cs first_three parts = Inl e \<Longrightarrow> \<not> is_http_exception e"
  unfolding build_verdict_def
  by (erule then_do_raises) (simp_all add: shown_error)

lemma normalize_error:
  assumes "normalize fname thr result = Inl e"
  shows "e = invalid_response_format \<or> \<not> is_http_exception e"
  using assms unfolding normalize_def
  apply (rule then_do_raises)
   apply (simp add: py_in_error)
  apply (simp split: if_splits)
  apply (erule then_do_raises)
   apply (simp add: py_getitem_error)
  apply (erule then_do_raises)
   apply (simp add: py_len_error)
  apply (simp split: if_splits)
  apply (erule then_do_raises)
   apply (simp add: py_getitem0_error)
  apply (erule then_do_raises)
   apply (simp add: py_get_error)
  apply (erule then_do_raises)
   apply (simp add: py_get_error)
  apply (erule then_do_raises)
   apply (simp add: py_items_error)
  apply (erule then_do_raises)
   apply (simp add: py_sorted_reverse_error)
  apply (erule then_do_raises)
   apply (simp add: round_score_error)
  apply (erule then_do_raises)
   apply (simp add: format_sources_error)
  apply (simp add: build_verdict_error)
  done

lemma returned_error: "returned oc = Inl e \<Longrightarrow> \<not> is_http_exception e"
  by (cases oc) auto

lemma raise_for_status_error: "raise_for_status r = Inl e \<Longrightarrow> \<not> is_http_exception e"
  by (auto simp: raise_for_status_def split: if_splits)

lemma response_json_error: "response_json r = Inl e \<Longrightarrow> \<not> is_http_exception e"
  by (auto simp: response_json_def split: sum.splits parse_error.splits)

lemma read_answer_error:
  assumes "read_answer fname thr (returned oc) = Inl e"
  shows "e = invalid_response_format \<or> \<not> is_http_exception e"
  using assms unfolding read_answer_def
  apply (rule then_do_raises)
   apply (simp add: returned_error)
  apply (erule then_do_raises)
   apply (simp add: raise_for_status_error)
  apply (erule then_do_raises)
   apply (simp add: response_json_error)
  apply (erule normalize_error)
  done

lemma upload_asset_error:
  assumes "fst (upload_asset key w bs desc m tr) = Inl e"
  shows "\<not> is_http_exception e"
proof -
  let ?reserved = "then_do (returned (w tr (reserve_request key desc m))) (\<lambda>response.
              then_do (raise_for_status response) (\<lambda>_.
              then_do (response_json response) (\<lambda>j.
              then_do (py_getitem j ''uploadUrl'') (\<lambda>current_pre_signed_url.
              then_do (py_getitem j ''assetId'') (\<lambda>asset_id.
              Inr (current_pre_signed_url, asset_id))))))"
  have reserve: "\<not> is_http_exception e'" if "?reserved = Inl e'" for e'
    using that
    apply (rule then_do_raises)
     apply (simp add: returned_error)
    apply (erule then_do_raises)
     apply (simp add: raise_for_status_error)
    apply (erule then_do_raises)
     apply (simp add: response_json_error)
    apply (erule then_do_raises)
     apply (simp add: py_getitem_error)
    apply (erule then_do_raises)
     apply (simp add: py_getitem_error)
    apply simp
    done
  have transfer: "\<not> is_http_exception e'"
    if "then_do (returned oc) (\<lambda>upload_response.
          then_do (raise_for_status upload_response) (\<lambda>_. Inr aid)) = Inl e'" for oc aid e'
    using that
    apply (rule then_do_raises)
     apply (simp add: returned_error)
    apply (erule then_do_raises)
     apply (simp add: raise_for_status_error)
    apply simp
    done
  show ?thesis
  proof (cases ?reserved)
    case (Inl e')
    with assms have "e = e'"
      by (simp add: upload_asset_def requests_call_def)
    with reserve [OF Inl] show ?thesis by simp
  next
    case (Inr p)
    obtain u aid where p: "p = (u, aid)" by (cases p)
    with assms Inr have "then_do (returned (w
          (if is_sent (w tr (reserve_request key desc m)) then tr @ [reserve_request key desc m] else tr)
          (transfer_request u bs desc m))) (\<lambda>upload_response.
          then_do (raise_for_status upload_response) (\<lambda>_. Inr aid)) = Inl e"
      by (simp add: upload_asset_def requests_call_def)
    then show ?thesis by (rule transfer)
  qed
qed

lemma asset_submission_error: "asset_submission key m aid = Inl e \<Longrightarrow> e = Refused InvalidHeader"
  by (cases aid) (auto simp: asset_submission_def)

lemma normalize_shape:
  assumes "normalize fname thr result = Inr vd"
  shows "\<exists>kvs d rest. result = JObj kvs \<and> map_of kvs ''data'' = Some (JArr (JObj d # rest))"
proof -
  from assms obtain kvs where r: "result = JObj kvs"
    by (cases result) (auto simp: normalize_def then_do_def split: if_splits)
  with assms obtain data where d: "map_of kvs ''data'' = Some data"
    by (cases "map_of kvs ''data''") (auto simp: normalize_def then_do_def)
  from assms r d have rest: "then_do (py_len data) (\<lambda>n.
     if \<not> n > 0 then Inl invalid_response_format else
     then_do (py_getitem0 data) (\<lambda>detection_data.
     then_do (py_get detection_data ''is_ai_generated'' (JInt 0)) (\<lambda>ai_generated_score.
     Inr ()))) \<noteq> Inl e" for e
    by (auto simp: normalize_def then_do_def split: sum.splits if_splits)
  have "\<exists>dd rest. data = JArr (JObj dd # rest)"
  proof (cases data)
    case (JArr xs)
    show ?thesis
    proof (cases xs)
      case Nil
      with JArr rest [of invalid_response_format] show ?thesis
        by (simp add: then_do_def)
    next
      case (Cons x rest')
      with JArr rest [of AttributeError] show ?thesis
        by (cases x) (simp_all add: then_do_def)
    qed
  next
    case (JStr s)
    with rest [of invalid_response_format] rest [of AttributeError] show ?thesis
      by (cases s) (simp_all add: then_do_def)
  next
    case (JObj o')
    with rest [of invalid_response_format] rest [of "KeyError ''0''"] show ?thesis
      by (cases o') (simp_all add: then_do_def)
  qed (use rest [of TypeError] in \<open>simp_all add: then_do_def\<close>)
  with r d show ?thesis by blast
qed

text \<open>
  The two phases of the upload, by what the world does with each call; then the causes
  of a failed run that passed validation.
\<close>

lemma call_failure_reserve:
  assumes "call_failure (w tr (reserve_request key desc m)) = Some e"
  shows "upload_asset key w bs desc m tr
           = (Inl e, if is_sent (w tr (reserve_request key desc m))
                     then tr @ [reserve_request key desc m] else tr)"
  using assms
  by (cases "w tr (reserve_request key desc m)")
     (auto simp: upload_asset_def requests_call_def call_failure_def then_do_def
        split: sum.splits)

lemma call_failure_transfer:
  assumes "w tr (reserve_request key desc m) = Answered resp"
    and "call_failure (Answered resp) = None"
    and "json_body resp = Inr j"
    and "py_getitem j ''uploadUrl'' = Inr u"
    and "py_getitem j ''assetId'' = Inr aid"
    and "call_failure (w (tr @ [reserve_request key desc m]) (transfer_request u bs desc m)) = Some e"
  shows "upload_asset key w bs desc m tr
           = (Inl e, if is_sent (w (tr @ [reserve_request key desc m]) (transfer_request u bs desc m))
                     then tr @ [reserve_request key desc m, transfer_request u bs desc m]
                     else tr @ [reserve_request key desc m])"
  using assms
  by (cases "w (tr @ [reserve_request key desc m]) (transfer_request u bs desc m)")
     (auto simp: upload_asset_def requests_call_def call_failure_def then_do_def
        response_json_def split: sum.splits)

lemma upload_asset_returns:
  assumes "fst (upload_asset key w bs desc m tr) = Inr aid"
  shows "call_failure (w tr (reserve_request key desc m)) = None \<and>
         (\<exists>u. snd (upload_asset key w bs desc m tr)
                 = tr @ [reserve_request key desc m, transfer_request u bs desc m] \<and>
              call_failure (w (tr @ [reserve_request key desc m]) (transfer_request u bs desc m))
                 = None)"
proof -
  let ?R = "reserve_request key desc m"
  from assms obtain resp where resp: "w tr ?R = Answered resp"
    by (cases "w tr ?R") (auto simp: upload_asset_def requests_call_def then_do_def)
  from assms resp have ok: "raise_for_status resp = Inr ()"
    by (cases "raise_for_status resp") (auto simp: upload_asset_def requests_call_def then_do_def)
  from assms resp ok obtain j where j: "response_json resp = Inr j"
    by (cases "response_json resp") (auto simp: upload_asset_def requests_call_def then_do_def)
  from assms resp ok j obtain u where u: "py_getitem j ''uploadUrl'' = Inr u"
    by (cases "py_getitem j ''uploadUrl''") (auto simp: upload_asset_def requests_call_def then_do_def)
  from assms resp ok j u obtain a where a: "py_getitem j ''assetId'' = Inr a"
    by (cases "py_getitem j ''assetId''") (auto simp: upload_asset_def requests_call_def then_do_def)
  let ?T = "transfer_request u bs desc m"
  from assms resp ok j u a obtain r2 where r2: "w (tr @ [?R]) ?T = Answered r2"
    by (cases "w (tr @ [?R]) ?T") (auto simp: upload_asset_def requests_call_def then_do_def)
  from assms resp ok j u a r2 have ok2: "raise_for_status r2 = Inr ()"
    by (cases "raise_for_status r2") (auto simp: upload_asset_def requests_call_def then_do_def)
  from resp ok j u a r2 ok2 have "snd (upload_asset key w bs desc m tr) = tr @ [?R, ?T]"
    by (simp add: upload_asset_def requests_call_def then_do_def)
  moreover from resp ok have "call_failure (w tr ?R) = None"
    by (simp add: call_failure_def then_do_def)
  moreover from r2 ok2 have "call_failure (w (tr @ [?R]) ?T) = None"
    by (simp add: call_failure_def then_do_def)
  ultimately show ?thesis by blast
qed

lemma detect_failure_cause:
  assumes "threshold_ok thr" and "extension_ok (file_name f)"
    and "fst (detect_deepfake key w f (Some thr)) = Inl e"
  shows "\<exists>cause. e = HTTPException 500 (StrOf cause) \<and>
           (\<not> key_is_set key \<and>
              cause = HTTPException 500 (Lit ''Server configuration error: NVIDIA API key not set'')
            \<or> 180000 \<le> length (b64encode (file_bytes f)) \<and>
              fst (upload_asset key w (file_bytes f) ''Input Image''
                     (mime_type_of (extension (file_name f))) []) = Inl cause
            \<or> 180000 \<le> length (b64encode (file_bytes f)) \<and> cause = Refused InvalidHeader \<and>
              (\<exists>aid. fst (upload_asset key w (file_bytes f) ''Input Image''
                     (mime_type_of (extension (file_name f))) []) = Inr aid \<and>
                   \<not> is_str aid \<and> aid \<noteq> JNull)
            \<or> (\<exists>sub tr. submission key w (file_bytes f) (mime_type_of (extension (file_name f)))
                            (b64encode (file_bytes f)) [] = (Inr sub, tr) \<and>
                  read_answer (file_name f) thr (returned (w tr (scoring_request sub))) = Inl cause))"
proof (cases "key_is_set key")
  case False
  with assms have "e = HTTPException 500 (StrOf (HTTPException 500
      (Lit ''Server configuration error: NVIDIA API key not set'')))"
    by (simp add: detect_no_key)
  with False show ?thesis by blast
next
  case True
  let ?m = "mime_type_of (extension (file_name f))"
  let ?b = "b64encode (file_bytes f)"
  let ?up = "upload_asset key w (file_bytes f) ''Input Image'' ?m []"
  obtain s tr where sub: "submission key w (file_bytes f) ?m ?b [] = (s, tr)"
    by (cases "submission key w (file_bytes f) ?m ?b []")
  show ?thesis
  proof (cases s)
    case (Inl c)
    with sub have e: "e = HTTPException 500 (StrOf c)"
      using detect_submission_failed [OF assms(1,2) True, of w c tr] assms(3) by simp
    from sub Inl have big: "180000 \<le> length ?b"
      using submission_failed_big by fastforce
    with sub Inl have "fst ?up = Inl c \<or>
        c = Refused InvalidHeader \<and> (\<exists>aid. fst ?up = Inr aid \<and> \<not> is_str aid \<and> aid \<noteq> JNull)"
      by (cases ?up) (auto simp: submission_asset asset_submission_def split: sum.splits json.splits)
    with e big show ?thesis by blast
  next
    case (Inr sb)
    with sub have d: "detect_deepfake key w f (Some thr) =
        (except_handler (read_answer (file_name f) thr (returned (w tr (scoring_request sb)))),
         if is_sent (w tr (scoring_request sb)) then tr @ [scoring_request sb] else tr)"
      using detect_submitted [OF assms(1,2) True] by simp
    from d assms(3) obtain c where "read_answer (file_name f) thr (returned (w tr (scoring_request sb))) = Inl c"
      and "e = HTTPException 500 (StrOf c)"
      by (auto simp: except_handler_def split: sum.splits)
    with sub Inr show ?thesis by blast
  qed
qed

lemma detect_no_400:
  assumes "threshold_ok thr" and "extension_ok (file_name f)"
  shows "fst (detect_deepfake key w f (Some thr)) \<noteq>
      Inl (HTTPException 500 (StrOf (HTTPException 400 d)))"
proof
  assume "fst (detect_deepfake key w f (Some thr)) =
      Inl (HTTPException 500 (StrOf (HTTPException 400 d)))"
  from detect_failure_cause [OF assms this]
  consider "HTTPException 400 d =
        HTTPException 500 (Lit ''Server configuration error: NVIDIA API key not set'')"
    | "fst (upload_asset key w (file_bytes f) ''Input Image''
                 (mime_type_of (extension (file_name f))) []) = Inl (HTTPException 400 d)"
    | "HTTPException 400 d = Refused InvalidHeader"
    | oc where "read_answer (file_name f) thr (returned oc) = Inl (HTTPException 400 d)"
    by auto
  then show False
  proof cases
    case 1
    then show ?thesis by simp
  next
    case 2
    from upload_asset_error [OF this] show ?thesis by simp
  next
    case 3
    then show ?thesis by simp
  next
    case 4
    from read_answer_error [OF this] show ?thesis
      by (simp add: invalid_response_format_def)
  qed
qed

lemma validation_rejects_iff:
  "(\<exists>d. fst (detect_deepfake key w f (Some thr)) =
          Inl (HTTPException 500 (StrOf (HTTPException 400 d))))
     \<longleftrightarrow> \<not> (threshold_ok thr \<and> extension_ok (file_name f))"
proof (cases "threshold_ok thr \<and> extension_ok (file_name f)")
  case False
  then show ?thesis
    using detect_bad_threshold [of thr key w f] detect_bad_extension [of thr f key w]
    by (cases "threshold_ok thr") auto
next
  case True
  then show ?thesis
    using detect_no_400 [of thr f key w] by blast
qed

lemma rejected_makes_no_call:
  "\<not> (threshold_ok thr \<and> extension_ok (file_name f)) \<Longrightarrow>
   snd (detect_deepfake key w f (Some thr)) = []"
  using detect_calls_valid [of key w f thr] by blast


section \<open>Rounding\<close>

text \<open>
  The integer that \<^verbatim>\<open>round\<close> picks is the nearest one, the even one on a tie, and no
  other integer is; the doubles of the literals 0.0165, 1.65 and 0.017, and what the two
  roundings of the source return on the first.
\<close>

lemma round_half_even_nearest: "nearest_even x (round_half_even x)"
proof -
  define f where "f = \<lfloor>x\<rfloor>"
  define d where "d = x - of_int f"
  have d: "0 \<le> d" "d < 1"
    unfolding d_def f_def by linarith+
  have x: "x = of_int f + d"
    by (simp add: d_def)
  have r: "round_half_even x =
      (if d < 1 / 2 then f else if 1 / 2 < d then f + 1 else if even f then f else f + 1)"
    by (simp add: round_half_even_def Let_def f_def d_def)
  have lo: "\<bar>x - of_int f\<bar> = d"
    using d by (simp add: d_def)
  have hi: "\<bar>x - of_int (f + 1)\<bar> = 1 - d"
    using d by (simp add: d_def)
  consider "d < 1 / 2" | "1 / 2 < d" | "d = 1 / 2" "even f" | "d = 1 / 2" "odd f"
    by fastforce
  then show ?thesis
  proof cases
    case 1
    then have "round_half_even x = f" by (simp add: r)
    with lo 1 show ?thesis by (simp add: nearest_even_def)
  next
    case 2
    then have "round_half_even x = f + 1" by (simp add: r)
    with hi 2 show ?thesis unfolding nearest_even_def by linarith
  next
    case 3
    then have "round_half_even x = f" by (simp add: r)
    with lo 3 show ?thesis by (simp add: nearest_even_def)
  next
    case 4
    then have "round_half_even x = f + 1" by (simp add: r)
    with hi 4 show ?thesis unfolding nearest_even_def by simp
  qed
qed

lemma nearest_even_unique:
  assumes "nearest_even x k"
  shows "k = round_half_even x"
proof -
  let ?r = "round_half_even x"
  from round_half_even_nearest [of x] have r: "\<bar>x - of_int ?r\<bar> \<le> 1 / 2"
    and re: "\<bar>x - of_int ?r\<bar> = 1 / 2 \<Longrightarrow> even ?r"
    by (simp_all add: nearest_even_def)
  from assms have k: "\<bar>x - of_int k\<bar> \<le> 1 / 2"
    and ke: "\<bar>x - of_int k\<bar> = 1 / 2 \<Longrightarrow> even k"
    by (simp_all add: nearest_even_def)
  have "\<bar>(of_int k :: rat) - of_int ?r\<bar> \<le> 1"
    using r k by linarith
  then have "\<bar>of_int (k - ?r) :: rat\<bar> \<le> 1"
    by simp
  then have d: "\<bar>k - ?r\<bar> \<le> 1"
    by (metis of_int_abs of_int_le_1_iff)
  show ?thesis
  proof (rule ccontr)
    assume ne: "k \<noteq> ?r"
    with d have c: "k = ?r + 1 \<or> k = ?r - 1" by linarith
    then have "\<bar>x - of_int ?r\<bar> = 1 / 2 \<and> \<bar>x - of_int k\<bar> = 1 / 2"
      using r k by (auto simp: abs_if split: if_splits)
    with re ke have "even ?r" "even k" by simp_all
    with c show False by auto
  qed
qed

lemma rounding_at_0_0165:
  "py_round (times100 (PFloat double_0_0165)) 2 = PFloat double_1_65"
  "py_round (PFloat double_0_0165) 3 = PFloat double_0_017"
  by code_simp+

lemma doubles_of_literals:
  "to_double (165 / 10000) = double_0_0165"
  "to_double (165 / 100) = double_1_65"
  "to_double (17 / 1000) = double_0_017"
  by code_simp+

text \<open>
  The two roundings on further scores (the doubles of 0.5, 0.123456, 0.9995, 0.0005,
  0.2675 and 0.016, an int, NaN and infinity), with the values CPython returns: the
  doubles of 0.9995, 0.0005 and 0.2675 lie above the decimal, so they round up.
\<close>

lemma rounding_examples:
  "py_round (times100 (PFloat (Finite (1 / 2)))) 2 = PFloat (Finite 50)"
  "py_round (PFloat (Finite (1 / 2))) 3 = PFloat (Finite (1 / 2))"
  "py_round (times100 (PFloat (Finite (8895942329546431 / 72057594037927936)))) 2
     = PFloat (Finite (6952431924753203 / 562949953421312))"
  "py_round (PFloat (Finite (8895942329546431 / 72057594037927936))) 3
     = PFloat (Finite (553942754166571 / 4503599627370496))"
  "py_round (times100 (PFloat (Finite (4501347827556811 / 4503599627370496)))) 2
     = PFloat (Finite (7033355980557517 / 70368744177664))"
  "py_round (PFloat (Finite (4501347827556811 / 4503599627370496))) 3 = PFloat (Finite 1)"
  "py_round (times100 (PFloat (Finite (1152921504606847 / 2305843009213693952)))) 2
     = PFloat (Finite (3602879701896397 / 72057594037927936))"
  "py_round (PFloat (Finite (1152921504606847 / 2305843009213693952))) 3
     = PFloat (Finite (1152921504606847 / 1152921504606846976))"
  "py_round (times100 (PFloat (Finite (4818851601286431 / 18014398509481984)))) 2
     = PFloat (Finite (107 / 4))"
  "py_round (PFloat (Finite (4818851601286431 / 18014398509481984))) 3
     = PFloat (Finite (1206964700135293 / 4503599627370496))"
  "py_round (times100 (PFloat default_threshold)) 2
     = PFloat (Finite (3602879701896397 / 2251799813685248))"
  "py_round (PFloat default_threshold) 3 = PFloat default_threshold"
  "py_round (times100 (PInt 1)) 2 = PInt 100"
  "py_round (PFloat NaN) 3 = PFloat NaN"
  "py_round (times100 (PFloat PosInf)) 2 = PFloat PosInf"
  by code_simp+

section \<open>Runs on the examples\<close>

text \<open>
  The small upload passes validation and travels inline; in a world that answers with
  status 200 and the body \<open>j\<close>, the run returns what post-processing makes of \<open>j\<close>.
\<close>

lemma cat_png_accepted:
  "extension_ok (file_name cat_png)"
  "mime_type_of (extension (file_name cat_png)) = ''image/png''"
  "length (b64encode (file_bytes cat_png)) < 180000"
  by (simp_all add: cat_png_def extension_ok_def extension_def splitext_def lower_def
      char_lower_def Let_def splitext_scan.simps mime_type_of_def)

lemma key_set: "key_is_set (Some ''nvapi-key'')"
  by (simp add: key_is_set_def)

lemma read_ok_response:
  "read_answer fname thr (Inr (ok_response u j)) = normalize fname thr j"
  by (simp add: read_answer_def then_do_def raise_for_status_def response_json_def ok_response_def)

lemma small_run:
  assumes "threshold_ok thr"
  shows "detect_deepfake (Some ''nvapi-key'') (answering j) cat_png (Some thr)
     = (except_handler (normalize ''cat.PNG'' thr j),
        [scoring_request (inline_submission (Some ''nvapi-key'') ''image/png''
           (b64encode (file_bytes cat_png)))])"
proof -
  have "submission (Some ''nvapi-key'') (answering j) (file_bytes cat_png)
      (mime_type_of (extension (file_name cat_png))) (b64encode (file_bytes cat_png)) []
    = (Inr (inline_submission (Some ''nvapi-key'') (mime_type_of (extension (file_name cat_png)))
         (b64encode (file_bytes cat_png))), [])"
    by (rule submission_inline) (rule cat_png_accepted)
  from detect_submitted [OF assms cat_png_accepted(1) key_set this]
  show ?thesis
    by (simp add: answering_def read_ok_response cat_png_accepted(2)) (simp add: cat_png_def)
qed

lemma small_run_outcome:
  assumes "threshold_ok thr"
  shows "scoring_outcome (answering j)
           (snd (detect_deepfake (Some ''nvapi-key'') (answering j) cat_png (Some thr)))
         = Some (Answered (ok_response INVOKE_URL j))"
  unfolding small_run [OF assms]
  by (simp add: scoring_outcome_def scoring_request_is_scoring answering_def)

lemma ok_response_fields:
  "\<not> (400 \<le> status_code (ok_response u j) \<and> status_code (ok_response u j) < 600)"
  "json_body (ok_response u j) = Inr j"
  by (simp_all add: ok_response_def)


section \<open>Input validation\<close>

text \<open>
  Claim C3. Validation is meant to report a client error that names the violated
  constraint. The two checks raise an \<^verbatim>\<open>HTTPException\<close> with status 400 inside the
  \<^verbatim>\<open>try\<close>, and the handler of that \<^verbatim>\<open>try\<close> catches it and raises status 500 in its
  place: for an upload named \<^verbatim>\<open>photo.gif\<close> and the threshold 0.5 the caller gets a
  server error (with the text of the 400 as its detail), and no call is made. The rest
  of the claim holds: \<open>validation_rejects_iff\<close> and \<open>rejected_makes_no_call\<close> above say
  that a request is rejected exactly when the threshold is outside \<open>[0,1]\<close> or the
  lower-cased extension is none of the three, and that a rejected request makes no call.
\<close>

theorem unsupported_extension_reported_as_500:
  "detect_deepfake key w \<lparr>file_name = ''photo.gif'', file_bytes = bs\<rparr> (Some (Finite (1 / 2))) =
     (Inl (HTTPException 500 (StrOf (HTTPException 400
        (Lit ''Invalid file type. Only jpg, jpeg, and png are supported.'')))), [])"
  by (simp add: detect_deepfake_def try_block_def except_handler_def threshold_ok_def num_le_def
      extension_ok_def extension_def splitext_def lower_def char_lower_def Let_def
      splitext_scan.simps)

section \<open>The verdict\<close>

text \<open>
  Claim C4. Take a run whose scoring request was answered, without an error status, by
  a JSON object. If the object has no \<^verbatim>\<open>data\<close> key, or its \<^verbatim>\<open>data\<close> is the empty list, the
  run fails with the error \<^verbatim>\<open>Invalid response format from NVIDIA API\<close> (wrapped by the
  handler) and returns no verdict. That differs from the low-confidence answer, where
  the container is there and its first entry holds neither score nor sources: then the
  run returns the unflagged verdict with confidence 0 and no sources.
\<close>

theorem missing_container_is_schema_error:
  assumes "scoring_outcome w (snd (detect_deepfake key w f (Some thr))) = Some (Answered r)"
    and "\<not> (400 \<le> status_code r \<and> status_code r < 600)"
    and "json_body r = Inr (JObj kvs)"
  shows "(map_of kvs ''data'' = None \<or> map_of kvs ''data'' = Some (JArr []) \<longrightarrow>
            fst (detect_deepfake key w f (Some thr)) =
              Inl (HTTPException 500 (StrOf (HTTPException 500
                (Lit ''Invalid response format from NVIDIA API'')))))
       \<and> (\<forall>d rest. map_of kvs ''data'' = Some (JArr (JObj d # rest)) \<and>
              map_of d ''is_ai_generated'' = None \<and> map_of d ''possible_sources'' = None \<longrightarrow>
            fst (detect_deepfake key w f (Some thr)) =
              Inr \<lparr>filename = file_name f, is_ai_generated = False,
                   confidence = PInt 0, confidence_score = PInt 0, threshold = thr,
                   status = ''success'',
                   message = [Text ''This image is '', Text ''unlikely'',
                              Text '' to be AI-generated with '', Shown (PInt 0),
                              Text ''% confidence (threshold: '', Shown (PFloat thr), Text '')''],
                   top_sources = [],
                   sources_message = [Text ''Top sources: '']\<rparr>)"
proof -
  let ?d = "detect_deepfake key w f (Some thr)"
  have d: "fst ?d = except_handler (normalize (file_name f) thr (JObj kvs))"
    by (rule detect_answered [OF assms])
  from detect_scored [OF assms(1)] have thr: "threshold_ok thr" by simp
  have absent: "fst ?d = Inl (HTTPException 500 (StrOf (HTTPException 500
                (Lit ''Invalid response format from NVIDIA API''))))"
    if "map_of kvs ''data'' = None \<or> map_of kvs ''data'' = Some (JArr [])"
    using that d
    by (auto simp: normalize_def then_do_def except_handler_def invalid_response_format_def)
  have present: "fst ?d = Inr \<lparr>filename = file_name f, is_ai_generated = False,
                   confidence = PInt 0, confidence_score = PInt 0, threshold = thr,
                   status = ''success'',
                   message = [Text ''This image is '', Text ''unlikely'',
                              Text '' to be AI-generated with '', Shown (PInt 0),
                              Text ''% confidence (threshold: '', Shown (PFloat thr), Text '')''],
                   top_sources = [],
                   sources_message = [Text ''Top sources: '']\<rparr>"
    if "map_of kvs ''data'' = Some (JArr (JObj d # rest))"
      and "map_of d ''is_ai_generated'' = None" and "map_of d ''possible_sources'' = None"
    for d rest
  proof -
    have "sources_of d = JObj []" "score_of d = JInt 0"
      using that by (simp_all add: sources_of_def score_of_def)
    then show ?thesis
      using normalize_numbers [OF that(1), of "[]" "file_name f" thr] d
        zero_not_above_threshold [OF thr]
      by (simp add: except_handler_def sorted_reverse_def then_do_def build_verdict_def str_of_int_ok_zero)
  qed
  from absent present show ?thesis by blast
qed

theorem missing_container_is_schema_error_witness:
  "scoring_outcome (answering (JObj [(''detail'', JStr ''no result'')]))
      (snd (detect_deepfake (Some ''nvapi-key'') (answering (JObj [(''detail'', JStr ''no result'')]))
         cat_png (Some default_threshold)))
     = Some (Answered (ok_response INVOKE_URL (JObj [(''detail'', JStr ''no result'')])))
   \<and> fst (detect_deepfake (Some ''nvapi-key'') (answering (JObj [(''detail'', JStr ''no result'')]))
         cat_png (Some default_threshold))
     = Inl (HTTPException 500 (StrOf (HTTPException 500
                (Lit ''Invalid response format from NVIDIA API''))))
   \<and> scoring_outcome (answering (JObj [(''data'', JArr [JObj []])]))
      (snd (detect_deepfake (Some ''nvapi-key'') (answering (JObj [(''data'', JArr [JObj []])]))
         cat_png (Some default_threshold)))
     = Some (Answered (ok_response INVOKE_URL (JObj [(''data'', JArr [JObj []])])))
   \<and> fst (detect_deepfake (Some ''nvapi-key'') (answering (JObj [(''data'', JArr [JObj []])]))
         cat_png (Some default_threshold))
     = Inr \<lparr>filename = ''cat.PNG'', is_ai_generated = False,
            confidence = PInt 0, confidence_score = PInt 0, threshold = default_threshold,
            status = ''success'',
            message = [Text ''This image is '', Text ''unlikely'',
                       Text '' to be AI-generated with '', Shown (PInt 0),
                       Text ''% confidence (threshold: '', Shown (PFloat default_threshold),
                       Text '')''],
            top_sources = [],
            sources_message = [Text ''Top sources: '']\<rparr>"
proof -
  let ?j = "JObj [(''detail'', JStr ''no result'')]"
  let ?d = "detect_deepfake (Some ''nvapi-key'') (answering ?j) cat_png (Some default_threshold)"
  let ?j2 = "JObj [(''data'', JArr [JObj []])]"
  let ?d2 = "detect_deepfake (Some ''nvapi-key'') (answering ?j2) cat_png (Some default_threshold)"
  have h1: "scoring_outcome (answering ?j) (snd ?d) = Some (Answered (ok_response INVOKE_URL ?j))"
    by (rule small_run_outcome [OF default_threshold_ok])
  have g1: "scoring_outcome (answering ?j2) (snd ?d2) = Some (Answered (ok_response INVOKE_URL ?j2))"
    by (rule small_run_outcome [OF default_threshold_ok])
  from missing_container_is_schema_error [OF h1 ok_response_fields]
  have a: "fst ?d = Inl (HTTPException 500 (StrOf (HTTPException 500
                (Lit ''Invalid response format from NVIDIA API''))))"
    by simp
  from missing_container_is_schema_error [OF g1 ok_response_fields]
  have b: "fst ?d2 = Inr \<lparr>filename = ''cat.PNG'', is_ai_generated = False,
            confidence = PInt 0, confidence_score = PInt 0, threshold = default_threshold,
            status = ''success'',
            message = [Text ''This image is '', Text ''unlikely'',
                       Text '' to be AI-generated with '', Shown (PInt 0),
                       Text ''% confidence (threshold: '', Shown (PFloat default_threshold),
                       Text '')''],
            top_sources = [],
            sources_message = [Text ''Top sources: '']\<rparr>"
    by (simp add: cat_png_def)
  from h1 a g1 b show ?thesis by blast
qed

text \<open>
  Claim C1. Take a run whose scoring request was answered with a body whose container
  starts with an object holding the score \<open>s\<close>. The run passed validation, so the
  threshold is a double with a value \<open>t\<close> in \<open>[0,1]\<close>. Every verdict the run returns has
  \<^verbatim>\<open>is_ai_generated\<close> true exactly when \<open>s > t\<close> in Python's comparison of numbers: for a
  finite float or an int \<open>s\<close>, when its value is strictly above \<open>t\<close>, so that a score
  equal to the threshold is not flagged. And a verdict is returned whenever the status
  is no error status, the score can be printed, and the sources are absent or a dict of
  weights that can be printed.
\<close>

theorem flag_is_strict_comparison:
  assumes "scoring_outcome w (snd (detect_deepfake key w f (Some thr))) = Some (Answered r)"
    and "json_body r = Inr (JObj kvs)"
    and "map_of kvs ''data'' = Some (JArr (JObj d # rest))"
    and "map_of d ''is_ai_generated'' = Some s"
  shows "\<exists>t. 0 \<le> t \<and> t \<le> 1 \<and> num_rank (PFloat thr) = (0, t) \<and> thr \<noteq> NaN \<and>
           (\<forall>vd. fst (detect_deepfake key w f (Some thr)) = Inr vd \<longrightarrow>
              is_number s \<and>
              (is_ai_generated vd \<longleftrightarrow> num_lt (PFloat thr) (number s)) \<and>
              (\<forall>q. number s = PFloat (Finite q) \<longrightarrow> (is_ai_generated vd \<longleftrightarrow> t < q)) \<and>
              (\<forall>n. number s = PInt n \<longrightarrow> (is_ai_generated vd \<longleftrightarrow> t < of_int n)) \<and>
              (number s = PFloat thr \<longrightarrow> \<not> is_ai_generated vd)) \<and>
           (\<not> (400 \<le> status_code r \<and> status_code r < 600) \<and> printable_score s \<and>
            (\<exists>srcs. sources_of d = JObj srcs \<and> list_all (\<lambda>x. printable_weight (snd x)) srcs)
              \<longrightarrow> (\<exists>vd. fst (detect_deepfake key w f (Some thr)) = Inr vd))"
proof -
  let ?d = "detect_deepfake key w f (Some thr)"
  from detect_scored [OF assms(1)] have "threshold_ok thr" by simp
  from threshold_rank [OF this] obtain t
    where t: "0 \<le> t" "t \<le> 1" "num_rank (PFloat thr) = (0, t)" "\<not> is_nan (PFloat thr)"
    by blast
  from t(4) have nn: "thr \<noteq> NaN" by auto
  have sc: "score_of d = s"
    using assms(4) by (simp add: score_of_def)
  have flag: "is_number s \<and>
              (is_ai_generated vd \<longleftrightarrow> num_lt (PFloat thr) (number s)) \<and>
              (\<forall>q. number s = PFloat (Finite q) \<longrightarrow> (is_ai_generated vd \<longleftrightarrow> t < q)) \<and>
              (\<forall>n. number s = PInt n \<longrightarrow> (is_ai_generated vd \<longleftrightarrow> t < of_int n)) \<and>
              (number s = PFloat thr \<longrightarrow> \<not> is_ai_generated vd)"
    if "fst ?d = Inr vd" for vd
  proof -
    from detect_verdict_scored [OF that] assms(1,2)
    have "normalize (file_name f) thr (JObj kvs) = Inr vd" by auto
    from normalize_returns [OF assms(3) this] sc
    obtain srcs parts where num: "is_number s"
      and "build_verdict (file_name f) thr s (py_round (times100 (number s)) 2)
             (py_round (number s) 3) (take 3 (sorted_reverse srcs)) parts = Inr vd"
      by auto
    from build_verdict_fields [OF this(2)]
    have fl: "is_ai_generated vd \<longleftrightarrow> num_lt (PFloat thr) (number s)" by simp
    with num t show ?thesis
      by (auto simp: num_lt_def)
  qed
  have total: "\<exists>vd. fst ?d = Inr vd"
    if "\<not> (400 \<le> status_code r \<and> status_code r < 600)" and "printable_score s"
      and "sources_of d = JObj srcs" and "list_all (\<lambda>x. printable_weight (snd x)) srcs" for srcs
  proof -
    from normalize_total [OF assms(3) that(3,4), of "file_name f" thr] that(2) sc
    obtain vd where "normalize (file_name f) thr (JObj kvs) = Inr vd" by auto
    with detect_answered [OF assms(1) that(1) assms(2)] show ?thesis
      by (simp add: except_handler_def)
  qed
  from t nn flag total show ?thesis by blast
qed


theorem flag_is_strict_comparison_witness:
  "scoring_outcome (answering (score_response (JFloat (Finite (1 / 32)))))
      (snd (detect_deepfake (Some ''nvapi-key'')
         (answering (score_response (JFloat (Finite (1 / 32))))) cat_png (Some (Finite (1 / 32)))))
     = Some (Answered (ok_response INVOKE_URL (score_response (JFloat (Finite (1 / 32))))))
   \<and> (\<exists>vd. fst (detect_deepfake (Some ''nvapi-key'')
         (answering (score_response (JFloat (Finite (1 / 32))))) cat_png (Some (Finite (1 / 32))))
         = Inr vd \<and> \<not> is_ai_generated vd)
   \<and> (\<exists>vd. fst (detect_deepfake (Some ''nvapi-key'')
         (answering (score_response (JFloat (Finite (1 / 32))))) cat_png (Some (Finite (1 / 64))))
         = Inr vd \<and> is_ai_generated vd)"
proof -
  let ?s = "JFloat (Finite (1 / 32))"
  let ?e = "[(''is_ai_generated'', ?s)]"
  let ?j = "score_response ?s"
  let ?r = "ok_response INVOKE_URL ?j"
  let ?d = "detect_deepfake (Some ''nvapi-key'') (answering ?j) cat_png (Some (Finite (1 / 32)))"
  let ?d2 = "detect_deepfake (Some ''nvapi-key'') (answering ?j) cat_png (Some (Finite (1 / 64)))"
  have t: "threshold_ok (Finite (1 / 32))" "threshold_ok (Finite (1 / 64))"
    by (simp_all add: threshold_ok_def num_le_def)
  have h1: "scoring_outcome (answering ?j) (snd ?d) = Some (Answered ?r)"
    by (rule small_run_outcome [OF t(1)])
  have g1: "scoring_outcome (answering ?j) (snd ?d2) = Some (Answered ?r)"
    by (rule small_run_outcome [OF t(2)])
  have h2: "json_body ?r = Inr (JObj [(''data'', JArr [JObj ?e])])"
    by (simp add: ok_response_def score_response_def)
  have h3: "map_of [(''data'', JArr [JObj ?e])] ''data'' = Some (JArr (JObj ?e # []))"
    by simp
  have h4: "map_of ?e ''is_ai_generated'' = Some ?s"
    by simp
  have p: "\<not> (400 \<le> status_code ?r \<and> status_code ?r < 600)" "printable_score ?s"
    "sources_of ?e = JObj []" "list_all (\<lambda>x. printable_weight (snd x)) []"
    by (simp_all add: ok_response_def printable_score_def sources_of_def)
  from flag_is_strict_comparison [OF h1 h2 h3 h4] p
  have a: "\<exists>vd. fst ?d = Inr vd \<and> \<not> is_ai_generated vd"
    by auto
  from flag_is_strict_comparison [OF g1 h2 h3 h4] p
  have b: "\<exists>vd. fst ?d2 = Inr vd \<and> is_ai_generated vd"
    by (auto simp: num_lt_def)
  from h1 a b show ?thesis by blast
qed

text \<open>
  Claim C5. Take a run whose scoring request was answered, without an error status, by
  a body whose container starts with an object \<open>d\<close> that has no score. The run returns
  what it returns on the same entry with the int 0 written in as the score. It does not
  fail for want of a score: it returns a verdict whenever the sources are absent or a
  dict of weights that can be printed, and with no sources that verdict is the
  unflagged one with an empty list of sources. Every verdict the run returns is
  unflagged and reports the confidence 0 and the confidence score 0, for every threshold
  that passed validation (the strictly positive ones among them).
\<close>

theorem missing_score_defaults_to_zero:
  assumes "scoring_outcome w (snd (detect_deepfake key w f (Some thr))) = Some (Answered r)"
    and "\<not> (400 \<le> status_code r \<and> status_code r < 600)"
    and "json_body r = Inr (JObj kvs)"
    and "map_of kvs ''data'' = Some (JArr (JObj d # rest))"
    and "map_of d ''is_ai_generated'' = None"
  shows "fst (detect_deepfake key w f (Some thr)) =
           except_handler (normalize (file_name f) thr
             (JObj [(''data'', JArr [JObj ((''is_ai_generated'', JInt 0) # d)])]))
       \<and> (map_of d ''possible_sources'' = None \<longrightarrow>
            fst (detect_deepfake key w f (Some thr)) =
              Inr \<lparr>filename = file_name f, is_ai_generated = False,
                   confidence = PInt 0, confidence_score = PInt 0, threshold = thr,
                   status = ''success'',
                   message = [Text ''This image is '', Text ''unlikely'',
                              Text '' to be AI-generated with '', Shown (PInt 0),
                              Text ''% confidence (threshold: '', Shown (PFloat thr), Text '')''],
                   top_sources = [],
                   sources_message = [Text ''Top sources: '']\<rparr>)
       \<and> (\<forall>vd. fst (detect_deepfake key w f (Some thr)) = Inr vd \<longrightarrow>
            \<not> is_ai_generated vd \<and> confidence vd = PInt 0 \<and> confidence_score vd = PInt 0 \<and>
            message vd ! 1 = Text ''unlikely'' \<and> message vd ! 3 = Shown (PInt 0))
       \<and> ((\<exists>srcs. sources_of d = JObj srcs \<and> list_all (\<lambda>x. printable_weight (snd x)) srcs) \<longrightarrow>
            (\<exists>vd. fst (detect_deepfake key w f (Some thr)) = Inr vd))"
proof -
  let ?d = "detect_deepfake key w f (Some thr)"
  let ?withscore = "(''is_ai_generated'', JInt 0) # d"
  have d: "fst ?d = except_handler (normalize (file_name f) thr (JObj kvs))"
    by (rule detect_answered [OF assms(1,2,3)])
  from detect_scored [OF assms(1)] have thr: "threshold_ok thr" by simp
  note low = zero_not_above_threshold [OF thr]
  have sc: "score_of d = JInt 0"
    using assms(5) by (simp add: score_of_def)
  have "score_of ?withscore = score_of d" "sources_of ?withscore = sources_of d"
    using sc by (simp_all add: score_of_def sources_of_def)
  moreover have "map_of [(''data'', JArr [JObj ?withscore])] ''data'' = Some (JArr (JObj ?withscore # []))"
    by simp
  ultimately have "normalize (file_name f) thr (JObj [(''data'', JArr [JObj ?withscore])])
      = normalize (file_name f) thr (JObj kvs)"
    using assms(4) by (simp add: normalize_container)
  with d have one: "fst ?d = except_handler (normalize (file_name f) thr
      (JObj [(''data'', JArr [JObj ?withscore])]))"
    by simp
  have two: "fst ?d = Inr \<lparr>filename = file_name f, is_ai_generated = False,
                   confidence = PInt 0, confidence_score = PInt 0, threshold = thr,
                   status = ''success'',
                   message = [Text ''This image is '', Text ''unlikely'',
                              Text '' to be AI-generated with '', Shown (PInt 0),
                              Text ''% confidence (threshold: '', Shown (PFloat thr), Text '')''],
                   top_sources = [],
                   sources_message = [Text ''Top sources: '']\<rparr>"
    if "map_of d ''possible_sources'' = None"
  proof -
    have "sources_of d = JObj []"
      using that by (simp add: sources_of_def)
    then show ?thesis
      using normalize_numbers [OF assms(4), of "[]" "file_name f" thr] d low sc
      by (simp add: except_handler_def sorted_reverse_def then_do_def build_verdict_def
          str_of_int_ok_zero)
  qed
  have three: "\<not> is_ai_generated vd \<and> confidence vd = PInt 0 \<and> confidence_score vd = PInt 0 \<and>
            message vd ! 1 = Text ''unlikely'' \<and> message vd ! 3 = Shown (PInt 0)"
    if "fst ?d = Inr vd" for vd
  proof -
    from that d have "normalize (file_name f) thr (JObj kvs) = Inr vd"
      by (simp add: except_handler_def split: sum.splits)
    from normalize_returns [OF assms(4) this] sc
    obtain srcs parts where
      "build_verdict (file_name f) thr (JInt 0) (py_round (times100 (number (JInt 0))) 2)
             (py_round (number (JInt 0)) 3) (take 3 (sorted_reverse srcs)) parts = Inr vd"
      by auto
    with low show ?thesis
      by (auto simp: build_verdict_def then_do_def str_of_int_ok_zero)
  qed
  have four: "\<exists>vd. fst ?d = Inr vd"
    if "sources_of d = JObj srcs" and "list_all (\<lambda>x. printable_weight (snd x)) srcs" for srcs
  proof -
    have "printable_score (score_of d)"
      by (simp add: sc printable_score_def str_of_int_ok_zero)
    from normalize_total [OF assms(4) that this, of "file_name f" thr] d show ?thesis
      by (auto simp: except_handler_def)
  qed
  from one two three four show ?thesis by blast
qed

theorem missing_score_defaults_to_zero_witness:
  "scoring_outcome
      (answering (JObj [(''data'', JArr [JObj [(''possible_sources'', JObj [(''midjourney'', JFloat (Finite (1 / 2)))])]])]))
      (snd (detect_deepfake (Some ''nvapi-key'')
         (answering (JObj [(''data'', JArr [JObj [(''possible_sources'', JObj [(''midjourney'', JFloat (Finite (1 / 2)))])]])]))
         cat_png (Some default_threshold)))
     = Some (Answered (ok_response INVOKE_URL
         (JObj [(''data'', JArr [JObj [(''possible_sources'', JObj [(''midjourney'', JFloat (Finite (1 / 2)))])]])])))
   \<and> (\<exists>vd. fst (detect_deepfake (Some ''nvapi-key'')
         (answering (JObj [(''data'', JArr [JObj [(''possible_sources'', JObj [(''midjourney'', JFloat (Finite (1 / 2)))])]])]))
         cat_png (Some default_threshold)) = Inr vd \<and>
         \<not> is_ai_generated vd \<and> confidence vd = PInt 0 \<and> confidence_score vd = PInt 0)"
proof -
  let ?srcs = "[(''midjourney'', JFloat (Finite (1 / 2)))]"
  let ?e = "[(''possible_sources'', JObj ?srcs)]"
  let ?j = "JObj [(''data'', JArr [JObj ?e])]"
  let ?r = "ok_response INVOKE_URL ?j"
  let ?d = "detect_deepfake (Some ''nvapi-key'') (answering ?j) cat_png (Some default_threshold)"
  have h1: "scoring_outcome (answering ?j) (snd ?d) = Some (Answered ?r)"
    by (rule small_run_outcome [OF default_threshold_ok])
  have h4: "map_of [(''data'', JArr [JObj ?e])] ''data'' = Some (JArr (JObj ?e # []))"
    by simp
  have h5: "map_of ?e ''is_ai_generated'' = None"
    by simp
  have p: "sources_of ?e = JObj ?srcs" "list_all (\<lambda>x. printable_weight (snd x)) ?srcs"
    by (simp_all add: sources_of_def printable_weight_def)
  from missing_score_defaults_to_zero [OF h1 ok_response_fields h4 h5] p
  have "\<exists>vd. fst ?d = Inr vd \<and>
         \<not> is_ai_generated vd \<and> confidence vd = PInt 0 \<and> confidence_score vd = PInt 0"
    by blast
  with h1 show ?thesis by blast
qed

text \<open>
  Claim C8. Take a run whose scoring request was answered with a body whose container
  starts with an object \<open>d\<close>. Every verdict the run returns has for \<^verbatim>\<open>confidence\<close> the value
  of \<^verbatim>\<open>round(score * 100, 2)\<close> and for \<^verbatim>\<open>confidence_score\<close> the value of
  \<^verbatim>\<open>round(score, 3)\<close>, both functions of the score alone, and the message prints that
  confidence. The rounding rule is fixed: an int score is not rounded (the confidence is
  the exact product); for a finite float \<open>q\<close> the confidence score is the double nearest
  to \<open>k / 1000\<close>, where \<open>k\<close> is the integer nearest to \<open>1000 q\<close>, the even one on a tie,
  and the confidence is obtained in the same way with 100 from the double nearest to
  \<open>100 q\<close>. A verdict is returned whenever the status is no error status, the score can
  be printed, and the sources are absent or a dict of weights that can be printed.
\<close>

theorem confidence_fields_are_rounded:
  assumes "scoring_outcome w (snd (detect_deepfake key w f (Some thr))) = Some (Answered r)"
    and "json_body r = Inr (JObj kvs)"
    and "map_of kvs ''data'' = Some (JArr (JObj d # rest))"
  shows "(\<forall>vd. fst (detect_deepfake key w f (Some thr)) = Inr vd \<longrightarrow>
            is_number (score_of d) \<and>
            confidence vd = py_round (times100 (number (score_of d))) 2 \<and>
            confidence_score vd = py_round (number (score_of d)) 3 \<and>
            message vd ! 3 = Shown (confidence vd) \<and>
            (\<forall>n. number (score_of d) = PInt n \<longrightarrow>
               confidence vd = PInt (n * 100) \<and> confidence_score vd = PInt n) \<and>
            (\<forall>q. number (score_of d) = PFloat (Finite q) \<longrightarrow>
               (\<exists>k. nearest_even (q * 1000) k \<and>
                  confidence_score vd =
                    PFloat (if k = 0 then (if q < 0 then NegZero else Finite 0)
                            else to_double (of_int k / 1000))) \<and>
               (\<forall>p. to_double (q * 100) = Finite p \<longrightarrow>
                  (\<exists>k. nearest_even (p * 100) k \<and>
                     confidence vd =
                       PFloat (if k = 0 then (if p < 0 then NegZero else Finite 0)
                               else to_double (of_int k / 100))))))
       \<and> (\<not> (400 \<le> status_code r \<and> status_code r < 600) \<and> printable_score (score_of d) \<and>
          (\<exists>srcs. sources_of d = JObj srcs \<and> list_all (\<lambda>x. printable_weight (snd x)) srcs)
            \<longrightarrow> (\<exists>vd. fst (detect_deepfake key w f (Some thr)) = Inr vd))"
proof -
  let ?d = "detect_deepfake key w f (Some thr)"
  let ?n = "number (score_of d)"
  have fields: "is_number (score_of d) \<and>
            confidence vd = py_round (times100 ?n) 2 \<and>
            confidence_score vd = py_round ?n 3 \<and>
            message vd ! 3 = Shown (confidence vd)"
    if "fst ?d = Inr vd" for vd
  proof -
    from detect_verdict_scored [OF that] assms(1,2)
    have "normalize (file_name f) thr (JObj kvs) = Inr vd" by auto
    from normalize_returns [OF assms(3) this]
    obtain srcs parts where num: "is_number (score_of d)"
      and "build_verdict (file_name f) thr (score_of d) (py_round (times100 ?n) 2)
             (py_round ?n 3) (take 3 (sorted_reverse srcs)) parts = Inr vd"
      by auto
    from build_verdict_fields [OF this(2)]
    have c: "confidence vd = py_round (times100 ?n) 2" "confidence_score vd = py_round ?n 3"
      and s: "shown (py_round (times100 ?n) 2) = Inr (message vd ! 3)"
      by simp_all
    from s have "message vd ! 3 = Shown (py_round (times100 ?n) 2)"
      by (cases "py_round (times100 ?n) 2") (auto split: if_splits)
    with num c show ?thesis by simp
  qed
  have ints: "confidence vd = PInt (n * 100) \<and> confidence_score vd = PInt n"
    if "fst ?d = Inr vd" and "?n = PInt n" for vd n
    using fields [OF that(1)] that(2) by simp
  have score: "\<exists>k. nearest_even (q * 1000) k \<and>
                  confidence_score vd =
                    PFloat (if k = 0 then (if q < 0 then NegZero else Finite 0)
                            else to_double (of_int k / 1000))"
    if "fst ?d = Inr vd" and "?n = PFloat (Finite q)" for vd q
  proof -
    from fields [OF that(1)] that(2)
    have "confidence_score vd =
        PFloat (if round_half_even (q * 1000) = 0 then (if q < 0 then NegZero else Finite 0)
                else to_double (of_int (round_half_even (q * 1000)) / 1000))"
      by (simp add: Let_def)
    with round_half_even_nearest [of "q * 1000"] show ?thesis by blast
  qed
  have percent: "\<exists>k. nearest_even (p * 100) k \<and>
                     confidence vd =
                       PFloat (if k = 0 then (if p < 0 then NegZero else Finite 0)
                               else to_double (of_int k / 100))"
    if "fst ?d = Inr vd" and "?n = PFloat (Finite q)" and "to_double (q * 100) = Finite p"
    for vd q p
  proof -
    from fields [OF that(1)] that(2,3)
    have "confidence vd =
        PFloat (if round_half_even (p * 100) = 0 then (if p < 0 then NegZero else Finite 0)
                else to_double (of_int (round_half_even (p * 100)) / 100))"
      by (simp add: Let_def)
    with round_half_even_nearest [of "p * 100"] show ?thesis by blast
  qed
  have total: "\<exists>vd. fst ?d = Inr vd"
    if "\<not> (400 \<le> status_code r \<and> status_code r < 600)" and "printable_score (score_of d)"
      and "sources_of d = JObj srcs" and "list_all (\<lambda>x. printable_weight (snd x)) srcs" for srcs
  proof -
    from normalize_total [OF assms(3) that(3,4,2), of "file_name f" thr]
    obtain vd where "normalize (file_name f) thr (JObj kvs) = Inr vd" by auto
    with detect_answered [OF assms(1) that(1) assms(2)] show ?thesis
      by (simp add: except_handler_def)
  qed
  from fields ints score percent total show ?thesis by blast
qed

theorem confidence_fields_are_rounded_witness:
  "scoring_outcome (answering (score_response (JFloat double_0_0165)))
      (snd (detect_deepfake (Some ''nvapi-key'')
         (answering (score_response (JFloat double_0_0165))) cat_png (Some default_threshold)))
     = Some (Answered (ok_response INVOKE_URL (score_response (JFloat double_0_0165))))
   \<and> (\<exists>vd. fst (detect_deepfake (Some ''nvapi-key'')
         (answering (score_response (JFloat double_0_0165))) cat_png (Some default_threshold))
         = Inr vd \<and>
         confidence vd = PFloat double_1_65 \<and> confidence_score vd = PFloat double_0_017 \<and>
         message vd ! 3 = Shown (PFloat double_1_65))"
proof -
  let ?s = "JFloat double_0_0165"
  let ?e = "[(''is_ai_generated'', ?s)]"
  let ?j = "score_response ?s"
  let ?r = "ok_response INVOKE_URL ?j"
  let ?d = "detect_deepfake (Some ''nvapi-key'') (answering ?j) cat_png (Some default_threshold)"
  have h1: "scoring_outcome (answering ?j) (snd ?d) = Some (Answered ?r)"
    by (rule small_run_outcome [OF default_threshold_ok])
  have h2: "json_body ?r = Inr (JObj [(''data'', JArr [JObj ?e])])"
    by (simp add: ok_response_def score_response_def)
  have h3: "map_of [(''data'', JArr [JObj ?e])] ''data'' = Some (JArr (JObj ?e # []))"
    by simp
  have sc: "score_of ?e = ?s"
    by (simp add: score_of_def)
  have p: "\<not> (400 \<le> status_code ?r \<and> status_code ?r < 600)" "printable_score (score_of ?e)"
    "sources_of ?e = JObj []" "list_all (\<lambda>x. printable_weight (snd x)) []"
    by (simp_all add: ok_response_def printable_score_def sources_of_def score_of_def
        double_0_0165_def)
  note step = confidence_fields_are_rounded [OF h1 h2 h3]
  from step p obtain vd where vd: "fst ?d = Inr vd"
    by blast
  with step have "confidence vd = py_round (times100 (number (score_of ?e))) 2"
    "confidence_score vd = py_round (number (score_of ?e)) 3"
    "message vd ! 3 = Shown (confidence vd)"
    by blast+
  then have "confidence vd = PFloat double_1_65 \<and> confidence_score vd = PFloat double_0_017 \<and>
         message vd ! 3 = Shown (PFloat double_1_65)"
    unfolding sc number.simps rounding_at_0_0165 by simp
  with vd h1 show ?thesis by blast
qed


section \<open>Default threshold\<close>

text \<open>
  Claim C10. The default of \<^verbatim>\<open>threshold\<close> is the double of the literal 0.016, which
  lies in \<open>[0,1]\<close>. A call without \<^verbatim>\<open>threshold\<close> never fails with the error of the
  threshold check: with a supported file name and the API key set, a small upload goes
  on to the scoring call. Every verdict of such a call carries that double as its
  \<^verbatim>\<open>threshold\<close>, prints it in its message, and is flagged exactly when the score of the
  answer is above it; and a verdict is returned whenever the scoring request was
  answered without error status by a body whose score and sources can be printed.
\<close>

theorem omitted_threshold_is_default:
  "default_threshold = to_double (16 / 1000)
   \<and> threshold_ok default_threshold
   \<and> fst (detect_deepfake key w f None) \<noteq>
       Inl (HTTPException 500 (StrOf (HTTPException 400 (Lit ''Threshold must be between 0 and 1''))))
   \<and> (extension_ok (file_name f) \<and> key_is_set key \<and>
      length (b64encode (file_bytes f)) < 180000 \<longrightarrow>
        detect_deepfake key w f None =
          (except_handler (read_answer (file_name f) default_threshold
             (returned (w [] (scoring_request (inline_submission key
                (mime_type_of (extension (file_name f))) (b64encode (file_bytes f))))))),
           if is_sent (w [] (scoring_request (inline_submission key
                (mime_type_of (extension (file_name f))) (b64encode (file_bytes f)))))
           then [scoring_request (inline_submission key
                (mime_type_of (extension (file_name f))) (b64encode (file_bytes f)))]
           else []))
   \<and> (\<forall>vd. fst (detect_deepfake key w f None) = Inr vd \<longrightarrow>
        threshold vd = default_threshold \<and>
        message vd ! 5 = Shown (PFloat default_threshold) \<and>
        (\<exists>r kvs d rest.
           scoring_outcome w (snd (detect_deepfake key w f None)) = Some (Answered r) \<and>
           json_body r = Inr (JObj kvs) \<and>
           map_of kvs ''data'' = Some (JArr (JObj d # rest)) \<and>
           is_number (score_of d) \<and>
           (is_ai_generated vd \<longleftrightarrow> num_lt (PFloat default_threshold) (number (score_of d))) \<and>
           (\<forall>q. number (score_of d) = PFloat (Finite q) \<longrightarrow>
              (is_ai_generated vd \<longleftrightarrow> 1152921504606847 / 72057594037927936 < q))))
   \<and> (\<forall>r kvs d rest.
        scoring_outcome w (snd (detect_deepfake key w f None)) = Some (Answered r) \<and>
        \<not> (400 \<le> status_code r \<and> status_code r < 600) \<and>
        json_body r = Inr (JObj kvs) \<and>
        map_of kvs ''data'' = Some (JArr (JObj d # rest)) \<and>
        printable_score (score_of d) \<and>
        (\<exists>srcs. sources_of d = JObj srcs \<and> list_all (\<lambda>x. printable_weight (snd x)) srcs) \<longrightarrow>
          (\<exists>vd. fst (detect_deepfake key w f None) = Inr vd))"
proof -
  let ?t = "default_threshold"
  let ?d = "detect_deepfake key w f (Some ?t)"
  let ?bad = "HTTPException 400 (Lit ''Threshold must be between 0 and 1'')"
  let ?m = "mime_type_of (extension (file_name f))"
  let ?b = "b64encode (file_bytes f)"
  let ?S = "scoring_request (inline_submission key ?m ?b)"
  have same: "detect_deepfake key w f None = ?d"
    by (simp add: detect_deepfake_def)
  note t = default_threshold_ok
  have one: "fst ?d \<noteq> Inl (HTTPException 500 (StrOf ?bad))"
  proof (cases "extension_ok (file_name f)")
    case False
    from detect_bad_extension [OF t False] show ?thesis by simp
  next
    case True
    from detect_no_400 [OF t True] show ?thesis .
  qed
  have two: "?d = (except_handler (read_answer (file_name f) ?t (returned (w [] ?S))),
           if is_sent (w [] ?S) then [?S] else [])"
    if "extension_ok (file_name f)" and "key_is_set key" and "length ?b < 180000"
  proof -
    from that(3) have "submission key w (file_bytes f) ?m ?b [] = (Inr (inline_submission key ?m ?b), [])"
      by (rule submission_inline)
    from detect_submitted [OF t that(1,2) this] show ?thesis by simp
  qed
  have three: "threshold vd = ?t \<and> message vd ! 5 = Shown (PFloat ?t) \<and>
        (\<exists>r kvs d rest.
           scoring_outcome w (snd ?d) = Some (Answered r) \<and>
           json_body r = Inr (JObj kvs) \<and>
           map_of kvs ''data'' = Some (JArr (JObj d # rest)) \<and>
           is_number (score_of d) \<and>
           (is_ai_generated vd \<longleftrightarrow> num_lt (PFloat ?t) (number (score_of d))) \<and>
           (\<forall>q. number (score_of d) = PFloat (Finite q) \<longrightarrow>
              (is_ai_generated vd \<longleftrightarrow> 1152921504606847 / 72057594037927936 < q)))"
    if "fst ?d = Inr vd" for vd
  proof -
    from detect_verdict_scored [OF that] obtain r result
      where r: "scoring_outcome w (snd ?d) = Some (Answered r)" "json_body r = Inr result"
        and n: "normalize (file_name f) ?t result = Inr vd"
      by blast
    from normalize_shape [OF n] obtain kvs d rest
      where k: "result = JObj kvs" "map_of kvs ''data'' = Some (JArr (JObj d # rest))"
      by blast
    from normalize_returns [OF k(2) n [unfolded k(1)]]
    obtain srcs parts where num: "is_number (score_of d)"
      and "build_verdict (file_name f) ?t (score_of d) (py_round (times100 (number (score_of d))) 2)
             (py_round (number (score_of d)) 3) (take 3 (sorted_reverse srcs)) parts = Inr vd"
      by auto
    then have bv: "threshold vd = ?t"
      "is_ai_generated vd \<longleftrightarrow> num_lt (PFloat ?t) (number (score_of d))"
      "message vd ! 5 = Shown (PFloat ?t)"
      by (auto simp: build_verdict_def then_do_def split: sum.splits)
    have "\<forall>q. number (score_of d) = PFloat (Finite q) \<longrightarrow>
              (is_ai_generated vd \<longleftrightarrow> 1152921504606847 / 72057594037927936 < q)"
      using bv(2) by (simp add: num_lt_def default_threshold_def)
    with r k num bv show ?thesis by blast
  qed
  have four: "\<exists>vd. fst ?d = Inr vd"
    if "scoring_outcome w (snd ?d) = Some (Answered r)"
      and "\<not> (400 \<le> status_code r \<and> status_code r < 600)"
      and "json_body r = Inr (JObj kvs)"
      and "map_of kvs ''data'' = Some (JArr (JObj d # rest))"
      and "printable_score (score_of d)"
      and "sources_of d = JObj srcs" and "list_all (\<lambda>x. printable_weight (snd x)) srcs"
    for r kvs d rest srcs
  proof -
    from normalize_total [OF that(4,6,7,5), of "file_name f" ?t]
    obtain vd where "normalize (file_name f) ?t (JObj kvs) = Inr vd" by auto
    with detect_answered [OF that(1,2,3)] show ?thesis
      by (simp add: except_handler_def)
  qed
  have c1: "default_threshold = to_double (16 / 1000)"
    by (rule default_threshold_literal [symmetric])
  have c4: "extension_ok (file_name f) \<and> key_is_set key \<and> length ?b < 180000 \<longrightarrow>
      ?d = (except_handler (read_answer (file_name f) ?t (returned (w [] ?S))),
           if is_sent (w [] ?S) then [?S] else [])"
    using two by blast
  have c5: "\<forall>vd. fst ?d = Inr vd \<longrightarrow>
        threshold vd = ?t \<and> message vd ! 5 = Shown (PFloat ?t) \<and>
        (\<exists>r kvs d rest.
           scoring_outcome w (snd ?d) = Some (Answered r) \<and>
           json_body r = Inr (JObj kvs) \<and>
           map_of kvs ''data'' = Some (JArr (JObj d # rest)) \<and>
           is_number (score_of d) \<and>
           (is_ai_generated vd \<longleftrightarrow> num_lt (PFloat ?t) (number (score_of d))) \<and>
           (\<forall>q. number (score_of d) = PFloat (Finite q) \<longrightarrow>
              (is_ai_generated vd \<longleftrightarrow> 1152921504606847 / 72057594037927936 < q)))"
    using three by blast
  have c6: "\<forall>r kvs d rest.
        scoring_outcome w (snd ?d) = Some (Answered r) \<and>
        \<not> (400 \<le> status_code r \<and> status_code r < 600) \<and>
        json_body r = Inr (JObj kvs) \<and>
        map_of kvs ''data'' = Some (JArr (JObj d # rest)) \<and>
        printable_score (score_of d) \<and>
        (\<exists>srcs. sources_of d = JObj srcs \<and> list_all (\<lambda>x. printable_weight (snd x)) srcs) \<longrightarrow>
          (\<exists>vd. fst ?d = Inr vd)"
    using four by blast
  from c1 t one c4 c5 c6 show ?thesis
    unfolding same by - (intro conjI, assumption+)
qed

theorem omitted_threshold_is_default_witness:
  "extension_ok (file_name cat_png) \<and> key_is_set (Some ''nvapi-key'') \<and>
   length (b64encode (file_bytes cat_png)) < 180000 \<and>
   snd (detect_deepfake (Some ''nvapi-key'') (answering (score_response (JFloat default_threshold)))
          cat_png None)
     = [scoring_request (inline_submission (Some ''nvapi-key'')
          (mime_type_of (extension (file_name cat_png))) (b64encode (file_bytes cat_png)))] \<and>
   (\<exists>vd. fst (detect_deepfake (Some ''nvapi-key'')
              (answering (score_response (JFloat default_threshold))) cat_png None) = Inr vd \<and>
         threshold vd = default_threshold \<and> \<not> is_ai_generated vd)"
proof -
  let ?s = "JFloat default_threshold"
  let ?e = "[(''is_ai_generated'', ?s)]"
  let ?j = "score_response ?s"
  let ?w = "answering ?j"
  let ?r = "ok_response INVOKE_URL ?j"
  let ?d = "detect_deepfake (Some ''nvapi-key'') ?w cat_png None"
  let ?S = "scoring_request (inline_submission (Some ''nvapi-key'')
          (mime_type_of (extension (file_name cat_png))) (b64encode (file_bytes cat_png)))"
  note step = omitted_threshold_is_default [of "Some ''nvapi-key''" ?w cat_png]
  from step cat_png_accepted(1,3) key_set
  have run: "?d = (except_handler (read_answer (file_name cat_png) default_threshold
             (returned (?w [] ?S))), if is_sent (?w [] ?S) then [?S] else [])"
    by blast
  then have tr: "snd ?d = [?S]"
    by (simp add: answering_def)
  then have so: "scoring_outcome ?w (snd ?d) = Some (Answered ?r)"
    by (simp add: scoring_outcome_def scoring_request_is_scoring answering_def)
  have h: "json_body ?r = Inr (JObj [(''data'', JArr [JObj ?e])])"
    "\<not> (400 \<le> status_code ?r \<and> status_code ?r < 600)"
    "map_of [(''data'', JArr [JObj ?e])] ''data'' = Some (JArr (JObj ?e # []))"
    "printable_score (score_of ?e)"
    "sources_of ?e = JObj []" "list_all (\<lambda>x. printable_weight (snd x)) []"
    by (simp_all add: ok_response_def score_response_def printable_score_def sources_of_def
        score_of_def default_threshold_def)
  from step so h obtain vd where vd: "fst ?d = Inr vd"
    by blast
  with step obtain r kvs d rest where th: "threshold vd = default_threshold"
    and r: "scoring_outcome ?w (snd ?d) = Some (Answered r)"
      "json_body r = Inr (JObj kvs)" "map_of kvs ''data'' = Some (JArr (JObj d # rest))"
    and fl: "is_ai_generated vd \<longleftrightarrow> num_lt (PFloat default_threshold) (number (score_of d))"
    by blast
  from r so h(1,3) have "d = ?e"
    by simp
  with fl have "\<not> is_ai_generated vd"
    by (simp add: score_of_def num_lt_def)
  with vd th tr cat_png_accepted(1,3) key_set show ?thesis by blast
qed

section \<open>Ranking of the sources\<close>

lemma nan_sources_unsorted: "sorted_reverse nan_sources = nan_sources"
  by (simp add: sorted_reverse_def nan_sources_def weight_def item_lt_def num_lt_def Let_def)

lemma tied_sources_ranked:
  "sorted_reverse tied_sources =
     [(''y'', JFloat (Finite (3 / 4))), (''x'', JFloat (Finite (1 / 4))),
      (''u'', JFloat (Finite (1 / 4))), (''z'', JInt 0), (''v'', JFloat NegZero)]"
  by (simp add: sorted_reverse_def tied_sources_def weight_def)

lemma tied_sources_no_nan: "list_all (\<lambda>x. \<not> is_nan (weight x)) tied_sources"
  by (simp add: tied_sources_def weight_def)

text \<open>
  Claim C6, as stated, fails on a mapping with a NaN weight, which the parser of the
  answer accepts. For the sources a: 0.125, b: NaN, c: 0.5 the run returns a verdict
  whose \<^verbatim>\<open>top_sources\<close> are a, b, c in that order, although the weight of a is below
  the weight of c: every comparison with NaN is false, and the sort leaves the list
  as it is.
\<close>

theorem nan_weight_is_not_ranked:
  "(\<exists>vd. fst (detect_deepfake (Some ''nvapi-key'')
              (answering (sources_response (JFloat (Finite (1 / 32))) nan_sources))
              cat_png (Some default_threshold)) = Inr vd \<and>
         top_sources vd = [(''a'', JFloat (Finite (1 / 8))), (''b'', JFloat NaN),
                           (''c'', JFloat (Finite (1 / 2)))])
   \<and> item_lt (''a'', JFloat (Finite (1 / 8))) (''c'', JFloat (Finite (1 / 2)))
   \<and> \<not> stable_descending nan_sources
         [(''a'', JFloat (Finite (1 / 8))), (''b'', JFloat NaN), (''c'', JFloat (Finite (1 / 2)))]"
proof -
  let ?s = "JFloat (Finite (1 / 32))"
  let ?e = "[(''is_ai_generated'', ?s), (''possible_sources'', JObj nan_sources)]"
  let ?j = "sources_response ?s nan_sources"
  let ?d = "detect_deepfake (Some ''nvapi-key'') (answering ?j) cat_png (Some default_threshold)"
  have d: "fst ?d = except_handler (normalize ''cat.PNG'' default_threshold ?j)"
    by (simp add: small_run [OF default_threshold_ok])
  have "map_of [(''data'', JArr [JObj ?e])] ''data'' = Some (JArr (JObj ?e # []))"
    by simp
  moreover have "sources_of ?e = JObj nan_sources" "score_of ?e = ?s"
    by (simp_all add: sources_of_def score_of_def)
  moreover have "list_all (\<lambda>x. is_number (snd x)) nan_sources"
    by (simp add: nan_sources_def)
  ultimately have "normalize ''cat.PNG'' default_threshold (JObj [(''data'', JArr [JObj ?e])]) =
     then_do (format_sources (take 3 (sorted_reverse nan_sources))) (\<lambda>parts.
     build_verdict ''cat.PNG'' default_threshold ?s (py_round (times100 (number ?s)) 2)
       (py_round (number ?s) 3) (take 3 (sorted_reverse nan_sources)) parts)"
    using normalize_numbers [of "[(''data'', JArr [JObj ?e])]" ?e "[]" nan_sources
        "''cat.PNG''" default_threshold]
    by simp
  then have "\<exists>vd. normalize ''cat.PNG'' default_threshold ?j = Inr vd \<and> top_sources vd = nan_sources"
    unfolding nan_sources_unsorted
    by (simp add: sources_response_def nan_sources_def format_source_def weight_def then_do_def
        build_verdict_def)
  with d have "\<exists>vd. fst ?d = Inr vd \<and> top_sources vd = nan_sources"
    by (auto simp: except_handler_def)
  moreover have lt: "item_lt (''a'', JFloat (Finite (1 / 8))) (''c'', JFloat (Finite (1 / 2)))"
    by (simp add: item_lt_def weight_def num_lt_def)
  moreover have "\<not> stable_descending nan_sources
         [(''a'', JFloat (Finite (1 / 8))), (''b'', JFloat NaN), (''c'', JFloat (Finite (1 / 2)))]"
    using lt by (simp add: stable_descending_def)
  ultimately show ?thesis
    by (simp add: nan_sources_def)
qed

text \<open>
  Claim C6, amended. Take a run whose scoring request was answered by a body whose
  container starts with an object holding the dict \<open>srcs\<close> of sources. If the run returns
  a verdict, the weights are numbers; and when none of them is NaN there is exactly one
  stable descending ranking of \<open>srcs\<close> (no pair before one of greater weight, pairs of
  equal weight in the order of the dict), the \<^verbatim>\<open>top_sources\<close> of the verdict are its first
  three pairs, and all of it when there are at most three sources. A verdict is
  returned whenever the status is no error status and the weights and the score can be
  printed.
\<close>

theorem top_sources_are_first_three_ranked:
  assumes "scoring_outcome w (snd (detect_deepfake key w f (Some thr))) = Some (Answered r)"
    and "json_body r = Inr (JObj kvs)"
    and "map_of kvs ''data'' = Some (JArr (JObj d # rest))"
    and "map_of d ''possible_sources'' = Some (JObj srcs)"
  shows "(\<forall>vd. fst (detect_deepfake key w f (Some thr)) = Inr vd \<longrightarrow>
            list_all (\<lambda>x. is_number (snd x)) srcs \<and>
            (list_all (\<lambda>x. \<not> is_nan (weight x)) srcs \<longrightarrow>
               (\<exists>ranked. stable_descending srcs ranked \<and>
                  (\<forall>other. stable_descending srcs other \<longrightarrow> other = ranked) \<and>
                  top_sources vd = take 3 ranked \<and>
                  (length srcs \<le> 3 \<longrightarrow> top_sources vd = ranked))))
       \<and> (\<not> (400 \<le> status_code r \<and> status_code r < 600) \<and>
          list_all (\<lambda>x. printable_weight (snd x)) srcs \<and> printable_score (score_of d) \<longrightarrow>
            (\<exists>vd. fst (detect_deepfake key w f (Some thr)) = Inr vd))"
proof -
  let ?d = "detect_deepfake key w f (Some thr)"
  let ?ranked = "sorted_reverse srcs"
  have so: "sources_of d = JObj srcs"
    using assms(4) by (simp add: sources_of_def)
  have ranked: "list_all (\<lambda>x. is_number (snd x)) srcs \<and>
            (list_all (\<lambda>x. \<not> is_nan (weight x)) srcs \<longrightarrow>
               (\<exists>ranked. stable_descending srcs ranked \<and>
                  (\<forall>other. stable_descending srcs other \<longrightarrow> other = ranked) \<and>
                  top_sources vd = take 3 ranked \<and>
                  (length srcs \<le> 3 \<longrightarrow> top_sources vd = ranked)))"
    if "fst ?d = Inr vd" for vd
  proof -
    from detect_verdict_scored [OF that] assms(1,2)
    have "normalize (file_name f) thr (JObj kvs) = Inr vd" by auto
    from normalize_returns [OF assms(3) this] so
    obtain parts where num: "list_all (\<lambda>x. is_number (snd x)) srcs"
      and "build_verdict (file_name f) thr (score_of d) (py_round (times100 (number (score_of d))) 2)
             (py_round (number (score_of d)) 3) (take 3 ?ranked) parts = Inr vd"
      by auto
    from build_verdict_fields [OF this(2)] have top: "top_sources vd = take 3 ?ranked"
      by simp
    have "\<exists>ranked. stable_descending srcs ranked \<and>
                  (\<forall>other. stable_descending srcs other \<longrightarrow> other = ranked) \<and>
                  top_sources vd = take 3 ranked \<and>
                  (length srcs \<le> 3 \<longrightarrow> top_sources vd = ranked)"
      if nn: "list_all (\<lambda>x. \<not> is_nan (weight x)) srcs"
    proof -
      have "stable_descending srcs ?ranked"
        by (rule sorted_reverse_stable [OF nn])
      moreover have "\<forall>other. stable_descending srcs other \<longrightarrow> other = ?ranked"
        using stable_descending_unique [OF nn] by blast
      moreover have "length srcs \<le> 3 \<longrightarrow> top_sources vd = ?ranked"
        using top by (simp add: length_sorted_reverse)
      ultimately show ?thesis using top by blast
    qed
    with num show ?thesis by blast
  qed
  have total: "\<exists>vd. fst ?d = Inr vd"
    if "\<not> (400 \<le> status_code r \<and> status_code r < 600)"
      and "list_all (\<lambda>x. printable_weight (snd x)) srcs" and "printable_score (score_of d)"
  proof -
    from normalize_total [OF assms(3) so that(2,3), of "file_name f" thr]
    obtain vd where "normalize (file_name f) thr (JObj kvs) = Inr vd" by auto
    with detect_answered [OF assms(1) that(1) assms(2)] show ?thesis
      by (simp add: except_handler_def)
  qed
  from ranked total show ?thesis by blast
qed

theorem top_sources_are_first_three_ranked_witness:
  "scoring_outcome (answering (sources_response (JFloat (Finite (1 / 32))) tied_sources))
      (snd (detect_deepfake (Some ''nvapi-key'')
         (answering (sources_response (JFloat (Finite (1 / 32))) tied_sources))
         cat_png (Some default_threshold)))
     = Some (Answered (ok_response INVOKE_URL
         (sources_response (JFloat (Finite (1 / 32))) tied_sources)))
   \<and> list_all (\<lambda>x. \<not> is_nan (weight x)) tied_sources
   \<and> (\<exists>vd ranked. fst (detect_deepfake (Some ''nvapi-key'')
         (answering (sources_response (JFloat (Finite (1 / 32))) tied_sources))
         cat_png (Some default_threshold)) = Inr vd \<and>
       stable_descending tied_sources ranked \<and>
       top_sources vd = take 3 ranked \<and>
       top_sources vd = [(''y'', JFloat (Finite (3 / 4))), (''x'', JFloat (Finite (1 / 4))),
                         (''u'', JFloat (Finite (1 / 4)))])"
proof -
  let ?s = "JFloat (Finite (1 / 32))"
  let ?e = "[(''is_ai_generated'', ?s), (''possible_sources'', JObj tied_sources)]"
  let ?j = "sources_response ?s tied_sources"
  let ?r = "ok_response INVOKE_URL ?j"
  let ?d = "detect_deepfake (Some ''nvapi-key'') (answering ?j) cat_png (Some default_threshold)"
  have h1: "scoring_outcome (answering ?j) (snd ?d) = Some (Answered ?r)"
    by (rule small_run_outcome [OF default_threshold_ok])
  have h2: "json_body ?r = Inr (JObj [(''data'', JArr [JObj ?e])])"
    by (simp add: ok_response_def sources_response_def)
  have h3: "map_of [(''data'', JArr [JObj ?e])] ''data'' = Some (JArr (JObj ?e # []))"
    by simp
  have h4: "map_of ?e ''possible_sources'' = Some (JObj tied_sources)"
    by simp
  have p: "\<not> (400 \<le> status_code ?r \<and> status_code ?r < 600)"
    "list_all (\<lambda>x. printable_weight (snd x)) tied_sources" "printable_score (score_of ?e)"
    by (simp_all add: ok_response_def tied_sources_def printable_weight_def printable_score_def
        score_of_def to_double_def)
  note step = top_sources_are_first_three_ranked [OF h1 h2 h3 h4]
  from step p obtain vd where vd: "fst ?d = Inr vd"
    by blast
  with step tied_sources_no_nan obtain ranked where r: "stable_descending tied_sources ranked"
    and t: "top_sources vd = take 3 ranked"
    by blast
  from stable_descending_unique [OF tied_sources_no_nan r] t
  have "top_sources vd = [(''y'', JFloat (Finite (3 / 4))), (''x'', JFloat (Finite (1 / 4))),
                         (''u'', JFloat (Finite (1 / 4)))]"
    by (simp add: tied_sources_ranked)
  with vd r t h1 tied_sources_no_nan show ?thesis by blast
qed


section \<open>Runs on the large example\<close>

text \<open>
  The large upload passes validation and its encoding has exactly 180000 characters, so
  it goes through \<^verbatim>\<open>upload_asset\<close>; what the run returns then depends on the upload and
  on the scoring call.
\<close>

lemma big_jpeg_accepted:
  "extension_ok (file_name big_jpeg)"
  "mime_type_of (extension (file_name big_jpeg)) = ''image/jpeg''"
  "length (b64encode (file_bytes big_jpeg)) = 180000"
  by (simp_all add: big_jpeg_def extension_ok_def extension_def splitext_def lower_def
      char_lower_def Let_def splitext_scan.simps mime_type_of_def big_image_encoded)

lemma big_jpeg_fields: "file_name big_jpeg = ''scan.jpeg''" "file_bytes big_jpeg = big_image"
  by (simp_all add: big_jpeg_def)

lemma upload_asset_first:
  "snd (upload_asset key w bs desc m []) \<noteq> [] \<longleftrightarrow> is_sent (w [] (reserve_request key desc m))"
  "snd (upload_asset key w bs desc m []) \<noteq> [] \<Longrightarrow>
   hd (snd (upload_asset key w bs desc m [])) = reserve_request key desc m"
  by (cases "w [] (reserve_request key desc m)";
      auto simp: upload_asset_def requests_call_def Let_def then_do_def
           split: sum.splits prod.splits if_splits)+

lemma big_run:
  assumes "threshold_ok thr"
    and "upload_asset (Some ''nvapi-key'') w big_image ''Input Image'' ''image/jpeg'' [] = (Inr aid, tr)"
    and "asset_submission (Some ''nvapi-key'') ''image/jpeg'' aid = Inr sub"
  shows "detect_deepfake (Some ''nvapi-key'') w big_jpeg (Some thr) =
     (except_handler (read_answer ''scan.jpeg'' thr (returned (w tr (scoring_request sub)))),
      if is_sent (w tr (scoring_request sub)) then tr @ [scoring_request sub] else tr)"
proof -
  have "submission (Some ''nvapi-key'') w (file_bytes big_jpeg)
      (mime_type_of (extension (file_name big_jpeg))) (b64encode (file_bytes big_jpeg)) []
    = (Inr sub, tr)"
    using assms(2,3) by (simp add: submission_asset big_jpeg_accepted) (simp add: big_jpeg_fields)
  from detect_submitted [OF assms(1) big_jpeg_accepted(1) key_set this]
  show ?thesis by (simp add: big_jpeg_fields)
qed

lemma big_run_failed:
  assumes "threshold_ok thr"
    and "upload_asset (Some ''nvapi-key'') w big_image ''Input Image'' ''image/jpeg'' [] = (Inl e, tr)"
  shows "detect_deepfake (Some ''nvapi-key'') w big_jpeg (Some thr) =
     (Inl (HTTPException 500 (StrOf e)), tr)"
proof -
  have "submission (Some ''nvapi-key'') w (file_bytes big_jpeg)
      (mime_type_of (extension (file_name big_jpeg))) (b64encode (file_bytes big_jpeg)) []
    = (Inl e, tr)"
    using assms(2) by (simp add: submission_asset big_jpeg_accepted) (simp add: big_jpeg_fields)
  from detect_submission_failed [OF assms(1) big_jpeg_accepted(1) key_set this]
  show ?thesis .
qed

lemma storing_upload:
  "upload_asset (Some ''nvapi-key'') (storing aid j) big_image ''Input Image'' ''image/jpeg'' []
     = (Inr aid,
        [reserve_request (Some ''nvapi-key'') ''Input Image'' ''image/jpeg'',
         transfer_request (JStr ''https://assets.example/put/1'') big_image ''Input Image''
           ''image/jpeg''])"
  by (simp add: upload_asset_def requests_call_def storing_def then_do_def raise_for_status_def
      response_json_def reserve_request_def transfer_request_def ok_response_def reservation_def
      ASSETS_URL_def)

lemma storing_scoring: "storing aid j tr (scoring_request sub) = Answered (ok_response INVOKE_URL j)"
  by (simp add: storing_def scoring_request_def ASSETS_URL_def INVOKE_URL_def)


lemma dropping_transfer_upload:
  "upload_asset (Some ''nvapi-key'') dropping_transfer big_image ''Input Image'' ''image/jpeg'' []
     = (Inl (ConnectionError ''Connection aborted.''),
        [reserve_request (Some ''nvapi-key'') ''Input Image'' ''image/jpeg'',
         transfer_request (JStr ''https://assets.example/put/1'') big_image ''Input Image''
           ''image/jpeg''])"
  by (simp add: upload_asset_def requests_call_def dropping_transfer_def then_do_def
      raise_for_status_def response_json_def reserve_request_def transfer_request_def
      ok_response_def reservation_def ASSETS_URL_def)

lemma dropping_scoring_upload:
  "upload_asset (Some ''nvapi-key'') dropping_scoring big_image ''Input Image'' ''image/jpeg'' []
     = (Inr (JStr ''asset-1''),
        [reserve_request (Some ''nvapi-key'') ''Input Image'' ''image/jpeg'',
         transfer_request (JStr ''https://assets.example/put/1'') big_image ''Input Image''
           ''image/jpeg''])"
  by (simp add: upload_asset_def requests_call_def dropping_scoring_def then_do_def
      raise_for_status_def response_json_def reserve_request_def transfer_request_def
      ok_response_def reservation_def ASSETS_URL_def)

lemma dropping_scoring_call:
  "dropping_scoring tr (scoring_request sub) = Failed ''Connection aborted.''"
  by (simp add: dropping_scoring_def scoring_request_def ASSETS_URL_def INVOKE_URL_def)


lemma dropping_transfer_run:
  "detect_deepfake (Some ''nvapi-key'') dropping_transfer big_jpeg (Some default_threshold)
     = (Inl (HTTPException 500 (StrOf (ConnectionError ''Connection aborted.''))),
        [reserve_request (Some ''nvapi-key'') ''Input Image'' ''image/jpeg'',
         transfer_request (JStr ''https://assets.example/put/1'') big_image ''Input Image''
           ''image/jpeg''])"
  by (rule big_run_failed [OF default_threshold_ok dropping_transfer_upload])

lemma asset_submission_string:
  "asset_submission key m (JStr a) =
     Inr (JObj [(''input'', JArr [JStr (''data:'' @ m @ '';asset_id,'' @ a)])],
          [(''Content-Type'', ''application/json''),
           (''NVCF-INPUT-ASSET-REFERENCES'', a),
           (''Authorization'', HEADER_AUTH key)])"
  by (simp add: asset_submission_def)

lemma asset_submission_null:
  "asset_submission key m JNull =
     Inr (JObj [(''input'', JArr [JStr (''data:'' @ m @ '';asset_id,None'')])],
          [(''Content-Type'', ''application/json''),
           (''Authorization'', HEADER_AUTH key)])"
  by (simp add: asset_submission_def)

lemma dropping_scoring_run:
  "detect_deepfake (Some ''nvapi-key'') dropping_scoring big_jpeg (Some default_threshold)
     = (Inl (HTTPException 500 (StrOf (ConnectionError ''Connection aborted.''))),
        [reserve_request (Some ''nvapi-key'') ''Input Image'' ''image/jpeg'',
         transfer_request (JStr ''https://assets.example/put/1'') big_image ''Input Image''
           ''image/jpeg'',
         scoring_request (JObj [(''input'', JArr [JStr ''data:image/jpeg;asset_id,asset-1''])],
          [(''Content-Type'', ''application/json''),
           (''NVCF-INPUT-ASSET-REFERENCES'', ''asset-1''),
           (''Authorization'', HEADER_AUTH (Some ''nvapi-key''))])])"
  using big_run [OF default_threshold_ok dropping_scoring_upload asset_submission_string]
  by (simp add: dropping_scoring_call read_answer_def then_do_def except_handler_def)

section \<open>Submission strategy\<close>

text \<open>
  Claim C2, as stated, fails when the reservation carries a null asset id. The large
  upload has an encoding of exactly 180000 characters; in a world whose reservation
  gives \<^verbatim>\<open>"assetId": null\<close> the upload succeeds, the f-string prints the id as
  \<^verbatim>\<open>None\<close>, the HTTP library drops the header whose value is \<^verbatim>\<open>None\<close>, and the scoring
  request goes out with the body \<^verbatim>\<open>data:image/jpeg;asset_id,None\<close> and no companion
  header; the run returns a verdict.
\<close>

theorem null_asset_id_is_sent_without_header:
  "length (b64encode (file_bytes big_jpeg)) = 180000
   \<and> (\<exists>rq. snd (detect_deepfake (Some ''nvapi-key'')
                  (storing JNull (score_response (JFloat (Finite (1 / 32)))))
                  big_jpeg (Some default_threshold))
            = [reserve_request (Some ''nvapi-key'') ''Input Image'' ''image/jpeg'',
               transfer_request (JStr ''https://assets.example/put/1'') big_image ''Input Image''
                 ''image/jpeg'',
               rq] \<and>
          is_scoring rq \<and>
          body rq = JsonBody (JObj [(''input'', JArr [JStr ''data:image/jpeg;asset_id,None''])]) \<and>
          map_of (headers rq) ''NVCF-INPUT-ASSET-REFERENCES'' = None)
   \<and> (\<exists>vd. fst (detect_deepfake (Some ''nvapi-key'')
                  (storing JNull (score_response (JFloat (Finite (1 / 32)))))
                  big_jpeg (Some default_threshold)) = Inr vd)"
proof -
  let ?j = "score_response (JFloat (Finite (1 / 32)))"
  let ?e = "[(''is_ai_generated'', JFloat (Finite (1 / 32)))]"
  let ?d = "detect_deepfake (Some ''nvapi-key'') (storing JNull ?j) big_jpeg (Some default_threshold)"
  let ?sub = "(JObj [(''input'', JArr [JStr (''data:'' @ ''image/jpeg'' @ '';asset_id,None'')])],
          [(''Content-Type'', ''application/json''),
           (''Authorization'', HEADER_AUTH (Some ''nvapi-key''))])"
  have run: "?d = (except_handler (normalize ''scan.jpeg'' default_threshold ?j),
      [reserve_request (Some ''nvapi-key'') ''Input Image'' ''image/jpeg'',
       transfer_request (JStr ''https://assets.example/put/1'') big_image ''Input Image''
         ''image/jpeg'',
       scoring_request ?sub])"
    using big_run [OF default_threshold_ok storing_upload asset_submission_null]
    by (simp add: storing_scoring read_ok_response)
  have "map_of [(''data'', JArr [JObj ?e])] ''data'' = Some (JArr (JObj ?e # []))"
    "sources_of ?e = JObj []" "list_all (\<lambda>x. printable_weight (snd x)) []"
    "printable_score (score_of ?e)"
    by (simp_all add: sources_of_def score_of_def printable_score_def)
  from normalize_total [OF this, of "''scan.jpeg''" default_threshold]
  have "\<exists>vd. normalize ''scan.jpeg'' default_threshold ?j = Inr vd"
    by (simp add: score_response_def)
  with run have v: "\<exists>vd. fst ?d = Inr vd"
    by (auto simp: except_handler_def)
  have "is_scoring (scoring_request ?sub)"
    by (rule scoring_request_is_scoring)
  moreover have "body (scoring_request ?sub)
      = JsonBody (JObj [(''input'', JArr [JStr ''data:image/jpeg;asset_id,None''])])"
    "map_of (headers (scoring_request ?sub)) ''NVCF-INPUT-ASSET-REFERENCES'' = None"
    by (simp_all add: scoring_request_def)
  ultimately show ?thesis
    using run v big_jpeg_accepted(3) by simp
qed

text \<open>
  Claim C2, amended. For a request that passed validation with the API key set, the
  strategy depends on the encoded length alone. Below 180000 characters no upload
  happens: the only call is the scoring request, whose body is
  \<^verbatim>\<open>data:<mime>;base64,<payload>\<close> and which has no asset header. At 180000 or above,
  \<^verbatim>\<open>upload_asset\<close> runs first: its first call is the reserve request, and its trace holds
  no scoring request. When it returns a string \<^verbatim>\<open>asset_id\<close>, the scoring request has the
  body \<^verbatim>\<open>data:<mime>;asset_id,<id>\<close> and the id in the header
  \<^verbatim>\<open>NVCF-INPUT-ASSET-REFERENCES\<close>; when it returns \<^verbatim>\<open>None\<close>, the scoring request has the
  body \<^verbatim>\<open>data:<mime>;asset_id,None\<close> and no such header; in every other case the trace of
  the run is the trace of the upload. In each case the scoring request is the one call
  after the upload, and it is in the trace unless the HTTP library refused it.
\<close>

theorem strategy_by_encoded_length:
  assumes "threshold_ok thr" and "extension_ok (file_name f)" and "key_is_set key"
  shows "(length (b64encode (file_bytes f)) < 180000 \<longrightarrow>
           (\<exists>rq. is_scoring rq \<and>
              body rq = JsonBody (JObj [(''input'', JArr [JStr (''data:'' @
                 mime_type_of (extension (file_name f)) @ '';base64,'' @
                 b64encode (file_bytes f))])]) \<and>
              map_of (headers rq) ''NVCF-INPUT-ASSET-REFERENCES'' = None \<and>
              snd (detect_deepfake key w f (Some thr)) = (if is_sent (w [] rq) then [rq] else [])))
       \<and> (180000 \<le> length (b64encode (file_bytes f)) \<longrightarrow>
           (\<exists>up. up = upload_asset key w (file_bytes f) ''Input Image''
                        (mime_type_of (extension (file_name f))) [] \<and>
              (snd up \<noteq> [] \<longleftrightarrow>
                 is_sent (w [] (reserve_request key ''Input Image''
                        (mime_type_of (extension (file_name f)))))) \<and>
              (snd up \<noteq> [] \<longrightarrow>
                 hd (snd up) = reserve_request key ''Input Image''
                        (mime_type_of (extension (file_name f)))) \<and>
              (\<forall>rq \<in> set (snd up). \<not> is_scoring rq) \<and>
              (\<forall>asset_id. fst up = Inr (JStr asset_id) \<longrightarrow>
                 (\<exists>rq. is_scoring rq \<and>
                    body rq = JsonBody (JObj [(''input'', JArr [JStr (''data:'' @
                       mime_type_of (extension (file_name f)) @ '';asset_id,'' @ asset_id)])]) \<and>
                    map_of (headers rq) ''NVCF-INPUT-ASSET-REFERENCES'' = Some asset_id \<and>
                    snd (detect_deepfake key w f (Some thr)) =
                      (if is_sent (w (snd up) rq) then snd up @ [rq] else snd up))) \<and>
              (fst up = Inr JNull \<longrightarrow>
                 (\<exists>rq. is_scoring rq \<and>
                    body rq = JsonBody (JObj [(''input'', JArr [JStr (''data:'' @
                       mime_type_of (extension (file_name f)) @ '';asset_id,None'')])]) \<and>
                    map_of (headers rq) ''NVCF-INPUT-ASSET-REFERENCES'' = None \<and>
                    snd (detect_deepfake key w f (Some thr)) =
                      (if is_sent (w (snd up) rq) then snd up @ [rq] else snd up))) \<and>
              ((\<forall>asset_id. fst up \<noteq> Inr (JStr asset_id)) \<and> fst up \<noteq> Inr JNull \<longrightarrow>
                 snd (detect_deepfake key w f (Some thr)) = snd up)))"
proof -
  let ?d = "detect_deepfake key w f (Some thr)"
  let ?m = "mime_type_of (extension (file_name f))"
  let ?b = "b64encode (file_bytes f)"
  let ?R = "reserve_request key ''Input Image'' ?m"
  let ?up = "upload_asset key w (file_bytes f) ''Input Image'' ?m []"
  have inline: "\<exists>rq. is_scoring rq \<and>
      body rq = JsonBody (JObj [(''input'', JArr [JStr (''data:'' @ ?m @ '';base64,'' @ ?b)])]) \<and>
      map_of (headers rq) ''NVCF-INPUT-ASSET-REFERENCES'' = None \<and>
      snd ?d = (if is_sent (w [] rq) then [rq] else [])"
    if "length ?b < 180000"
  proof -
    let ?S = "scoring_request (inline_submission key ?m ?b)"
    from that have "submission key w (file_bytes f) ?m ?b [] = (Inr (inline_submission key ?m ?b), [])"
      by (rule submission_inline)
    from detect_submitted [OF assms this]
    have "snd ?d = (if is_sent (w [] ?S) then [?S] else [])" by simp
    moreover have "is_scoring ?S"
      by (rule scoring_request_is_scoring)
    moreover have "body ?S = JsonBody (JObj [(''input'', JArr [JStr (''data:'' @ ?m @ '';base64,'' @ ?b)])])"
      "map_of (headers ?S) ''NVCF-INPUT-ASSET-REFERENCES'' = None"
      by (simp_all add: scoring_request_def inline_submission_def)
    ultimately show ?thesis by blast
  qed
  have first: "snd ?up \<noteq> [] \<longleftrightarrow> is_sent (w [] ?R)" "snd ?up \<noteq> [] \<longrightarrow> hd (snd ?up) = ?R"
    using upload_asset_first [of key w "file_bytes f" "''Input Image''" ?m] by blast+
  have none: "\<forall>rq \<in> set (snd ?up). \<not> is_scoring rq"
    using upload_asset_no_scoring [of "[]" key w "file_bytes f" "''Input Image''" ?m] by simp
  have sent: "snd ?d = (if is_sent (w (snd ?up) (scoring_request sub))
                        then snd ?up @ [scoring_request sub] else snd ?up)"
    if "180000 \<le> length ?b" and "fst ?up = Inr aid" and "asset_submission key ?m aid = Inr sub"
    for aid sub
  proof -
    from that have "submission key w (file_bytes f) ?m ?b [] = (Inr sub, snd ?up)"
      by (cases ?up) (simp add: submission_asset)
    from detect_submitted [OF assms this] show ?thesis by simp
  qed
  have asset: "\<exists>rq. is_scoring rq \<and>
      body rq = JsonBody (JObj [(''input'', JArr [JStr (''data:'' @ ?m @ '';asset_id,'' @ a)])]) \<and>
      map_of (headers rq) ''NVCF-INPUT-ASSET-REFERENCES'' = Some a \<and>
      snd ?d = (if is_sent (w (snd ?up) rq) then snd ?up @ [rq] else snd ?up)"
    if "180000 \<le> length ?b" and "fst ?up = Inr (JStr a)" for a
  proof -
    let ?S = "scoring_request (JObj [(''input'', JArr [JStr (''data:'' @ ?m @ '';asset_id,'' @ a)])],
          [(''Content-Type'', ''application/json''),
           (''NVCF-INPUT-ASSET-REFERENCES'', a),
           (''Authorization'', HEADER_AUTH key)])"
    note sent [OF that asset_submission_string]
    moreover have "is_scoring ?S"
      by (rule scoring_request_is_scoring)
    moreover have "body ?S = JsonBody (JObj [(''input'', JArr [JStr (''data:'' @ ?m @ '';asset_id,'' @ a)])])"
      "map_of (headers ?S) ''NVCF-INPUT-ASSET-REFERENCES'' = Some a"
      by (simp_all add: scoring_request_def)
    ultimately show ?thesis by blast
  qed
  have null: "\<exists>rq. is_scoring rq \<and>
      body rq = JsonBody (JObj [(''input'', JArr [JStr (''data:'' @ ?m @ '';asset_id,None'')])]) \<and>
      map_of (headers rq) ''NVCF-INPUT-ASSET-REFERENCES'' = None \<and>
      snd ?d = (if is_sent (w (snd ?up) rq) then snd ?up @ [rq] else snd ?up)"
    if "180000 \<le> length ?b" and "fst ?up = Inr JNull"
  proof -
    let ?S = "scoring_request (JObj [(''input'', JArr [JStr (''data:'' @ ?m @ '';asset_id,None'')])],
          [(''Content-Type'', ''application/json''),
           (''Authorization'', HEADER_AUTH key)])"
    note sent [OF that asset_submission_null]
    moreover have "is_scoring ?S"
      by (rule scoring_request_is_scoring)
    moreover have "body ?S = JsonBody (JObj [(''input'', JArr [JStr (''data:'' @ ?m @ '';asset_id,None'')])])"
      "map_of (headers ?S) ''NVCF-INPUT-ASSET-REFERENCES'' = None"
      by (simp_all add: scoring_request_def)
    ultimately show ?thesis by blast
  qed
  have failed: "snd ?d = snd ?up"
    if "180000 \<le> length ?b" and "\<forall>a. fst ?up \<noteq> Inr (JStr a)" and "fst ?up \<noteq> Inr JNull"
  proof -
    from that have "\<exists>e. submission key w (file_bytes f) ?m ?b [] = (Inl e, snd ?up)"
      by (cases ?up)
         (auto simp: submission_asset asset_submission_def split: sum.splits json.splits)
    then obtain e where "submission key w (file_bytes f) ?m ?b [] = (Inl e, snd ?up)" ..
    from detect_submission_failed [OF assms this] show ?thesis by simp
  qed
  have big: "\<exists>up. up = ?up \<and>
              (snd up \<noteq> [] \<longleftrightarrow> is_sent (w [] ?R)) \<and>
              (snd up \<noteq> [] \<longrightarrow> hd (snd up) = ?R) \<and>
              (\<forall>rq \<in> set (snd up). \<not> is_scoring rq) \<and>
              (\<forall>asset_id. fst up = Inr (JStr asset_id) \<longrightarrow>
                 (\<exists>rq. is_scoring rq \<and>
                    body rq = JsonBody (JObj [(''input'', JArr [JStr (''data:'' @
                       ?m @ '';asset_id,'' @ asset_id)])]) \<and>
                    map_of (headers rq) ''NVCF-INPUT-ASSET-REFERENCES'' = Some asset_id \<and>
                    snd ?d = (if is_sent (w (snd up) rq) then snd up @ [rq] else snd up))) \<and>
              (fst up = Inr JNull \<longrightarrow>
                 (\<exists>rq. is_scoring rq \<and>
                    body rq = JsonBody (JObj [(''input'', JArr [JStr (''data:'' @
                       ?m @ '';asset_id,None'')])]) \<and>
                    map_of (headers rq) ''NVCF-INPUT-ASSET-REFERENCES'' = None \<and>
                    snd ?d = (if is_sent (w (snd up) rq) then snd up @ [rq] else snd up))) \<and>
              ((\<forall>asset_id. fst up \<noteq> Inr (JStr asset_id)) \<and> fst up \<noteq> Inr JNull \<longrightarrow>
                 snd ?d = snd up)"
    if b: "180000 \<le> length ?b"
  proof (intro exI conjI)
    show "?up = ?up" ..
    show "snd ?up \<noteq> [] \<longleftrightarrow> is_sent (w [] ?R)" by (rule first)
    show "snd ?up \<noteq> [] \<longrightarrow> hd (snd ?up) = ?R" by (rule first)
    show "\<forall>rq \<in> set (snd ?up). \<not> is_scoring rq" by (rule none)
    show "\<forall>asset_id. fst ?up = Inr (JStr asset_id) \<longrightarrow>
                 (\<exists>rq. is_scoring rq \<and>
                    body rq = JsonBody (JObj [(''input'', JArr [JStr (''data:'' @
                       ?m @ '';asset_id,'' @ asset_id)])]) \<and>
                    map_of (headers rq) ''NVCF-INPUT-ASSET-REFERENCES'' = Some asset_id \<and>
                    snd ?d = (if is_sent (w (snd ?up) rq) then snd ?up @ [rq] else snd ?up))"
      using asset [OF b] by blast
    show "fst ?up = Inr JNull \<longrightarrow>
                 (\<exists>rq. is_scoring rq \<and>
                    body rq = JsonBody (JObj [(''input'', JArr [JStr (''data:'' @
                       ?m @ '';asset_id,None'')])]) \<and>
                    map_of (headers rq) ''NVCF-INPUT-ASSET-REFERENCES'' = None \<and>
                    snd ?d = (if is_sent (w (snd ?up) rq) then snd ?up @ [rq] else snd ?up))"
      using null [OF b] by blast
    show "(\<forall>asset_id. fst ?up \<noteq> Inr (JStr asset_id)) \<and> fst ?up \<noteq> Inr JNull \<longrightarrow>
                 snd ?d = snd ?up"
      using failed [OF b] by blast
  qed
  from inline big show ?thesis
    by - (intro conjI impI, assumption+)
qed


lemma storing_sends: "is_sent (storing aid j tr rq)"
  by (simp add: storing_def)

theorem strategy_by_encoded_length_witness:
  "threshold_ok default_threshold \<and> extension_ok (file_name big_jpeg) \<and>
   key_is_set (Some ''nvapi-key'') \<and>
   180000 \<le> length (b64encode (file_bytes big_jpeg)) \<and>
   fst (upload_asset (Some ''nvapi-key'') (storing (JStr ''asset-1'') (JObj []))
          (file_bytes big_jpeg) ''Input Image'' (mime_type_of (extension (file_name big_jpeg))) [])
     = Inr (JStr ''asset-1'') \<and>
   (\<exists>rq. is_scoring rq \<and>
      body rq = JsonBody (JObj [(''input'', JArr [JStr ''data:image/jpeg;asset_id,asset-1''])]) \<and>
      map_of (headers rq) ''NVCF-INPUT-ASSET-REFERENCES'' = Some ''asset-1'' \<and>
      snd (detect_deepfake (Some ''nvapi-key'') (storing (JStr ''asset-1'') (JObj [])) big_jpeg
             (Some default_threshold))
        = [reserve_request (Some ''nvapi-key'') ''Input Image'' ''image/jpeg'',
           transfer_request (JStr ''https://assets.example/put/1'') big_image ''Input Image''
             ''image/jpeg'',
           rq]) \<and>
   extension_ok (file_name cat_png) \<and> length (b64encode (file_bytes cat_png)) < 180000 \<and>
   (\<exists>rq. is_scoring rq \<and> map_of (headers rq) ''NVCF-INPUT-ASSET-REFERENCES'' = None \<and>
      snd (detect_deepfake (Some ''nvapi-key'') (storing (JStr ''asset-1'') (JObj [])) cat_png
             (Some default_threshold)) = [rq])"
proof -
  let ?w = "storing (JStr ''asset-1'') (JObj [])"
  let ?d = "detect_deepfake (Some ''nvapi-key'') ?w big_jpeg (Some default_threshold)"
  let ?up = "upload_asset (Some ''nvapi-key'') ?w (file_bytes big_jpeg) ''Input Image''
      (mime_type_of (extension (file_name big_jpeg))) []"
  let ?tr = "[reserve_request (Some ''nvapi-key'') ''Input Image'' ''image/jpeg'',
           transfer_request (JStr ''https://assets.example/put/1'') big_image ''Input Image''
             ''image/jpeg'']"
  have ge: "180000 \<le> length (b64encode (file_bytes big_jpeg))"
    by (simp add: big_jpeg_accepted(3))
  have up: "?up = (Inr (JStr ''asset-1''), ?tr)"
    by (simp only: big_jpeg_accepted(2) big_jpeg_fields(2) storing_upload)
  have up2: "upload_asset (Some ''nvapi-key'') ?w (file_bytes big_jpeg) ''Input Image''
      ''image/jpeg'' [] = (Inr (JStr ''asset-1''), ?tr)"
    by (simp only: big_jpeg_fields(2) storing_upload)
  note big = strategy_by_encoded_length [OF default_threshold_ok big_jpeg_accepted(1) key_set,
      of ?w, THEN conjunct2, rule_format, OF ge]
  then have "\<exists>rq. is_scoring rq \<and>
      body rq = JsonBody (JObj [(''input'', JArr [JStr (''data:'' @
         mime_type_of (extension (file_name big_jpeg)) @ '';asset_id,'' @ ''asset-1'')])]) \<and>
      map_of (headers rq) ''NVCF-INPUT-ASSET-REFERENCES'' = Some ''asset-1'' \<and>
      snd ?d = (if is_sent (?w (snd ?up) rq) then snd ?up @ [rq] else snd ?up)"
    using up by auto
  then have a: "\<exists>rq. is_scoring rq \<and>
      body rq = JsonBody (JObj [(''input'', JArr [JStr ''data:image/jpeg;asset_id,asset-1''])]) \<and>
      map_of (headers rq) ''NVCF-INPUT-ASSET-REFERENCES'' = Some ''asset-1'' \<and>
      snd ?d = ?tr @ [rq]"
    using up2 by (simp add: storing_sends big_jpeg_accepted(2))
  note small = strategy_by_encoded_length [OF default_threshold_ok cat_png_accepted(1) key_set,
      of ?w, THEN conjunct1, rule_format, OF cat_png_accepted(3)]
  then have b: "\<exists>rq. is_scoring rq \<and> map_of (headers rq) ''NVCF-INPUT-ASSET-REFERENCES'' = None \<and>
      snd (detect_deepfake (Some ''nvapi-key'') ?w cat_png (Some default_threshold)) = [rq]"
    by (auto simp: storing_sends)
  from a b ge up default_threshold_ok big_jpeg_accepted(1) key_set cat_png_accepted(1,3)
  show ?thesis by simp
qed

section \<open>Failures of the upload\<close>

text \<open>
  Claim C9, as stated, fails in that an upload failure does not surface as an upload
  error. The large upload is sent in two worlds: in the first the reservation succeeds
  and the transfer fails with a connection error, in the second the upload succeeds and
  the scoring call fails with the same connection error. The caller gets the same error
  in both runs, a status 500 with the text of the connection error, although no scoring
  request was made in the first and one was made in the second.
\<close>

theorem transfer_and_scoring_failures_look_alike:
  "fst (detect_deepfake (Some ''nvapi-key'') dropping_transfer big_jpeg (Some default_threshold))
     = Inl (HTTPException 500 (StrOf (ConnectionError ''Connection aborted.'')))
   \<and> fst (detect_deepfake (Some ''nvapi-key'') dropping_scoring big_jpeg (Some default_threshold))
     = Inl (HTTPException 500 (StrOf (ConnectionError ''Connection aborted.'')))
   \<and> list_all (\<lambda>rq. \<not> is_scoring rq)
       (snd (detect_deepfake (Some ''nvapi-key'') dropping_transfer big_jpeg (Some default_threshold)))
   \<and> is_scoring (last
       (snd (detect_deepfake (Some ''nvapi-key'') dropping_scoring big_jpeg (Some default_threshold))))
   \<and> call_failure (dropping_transfer
         [reserve_request (Some ''nvapi-key'') ''Input Image'' ''image/jpeg'']
         (transfer_request (JStr ''https://assets.example/put/1'') big_image ''Input Image''
            ''image/jpeg''))
       = Some (ConnectionError ''Connection aborted.'')"
  unfolding dropping_transfer_run dropping_scoring_run
  by (simp add: reserve_not_scoring transfer_not_scoring scoring_request_is_scoring
      call_failure_def then_do_def)
     (simp add: dropping_transfer_def transfer_request_def ASSETS_URL_def)

text \<open>
  Claim C9, amended. Take a request that passed validation with the API key set and whose
  encoding has 180000 characters or more. If the reserve call fails (the library refuses
  it, the transmission fails, or the status is an error status), the run ends there: the
  caller gets status 500 with the text of that exception, and the trace holds the
  reserve request at most. If the reserve call succeeded and the transfer to the URL it
  gave fails in one of these ways, the caller gets status 500 with the text of the
  exception of the transfer, and the trace holds the upload calls only. Whatever makes
  \<^verbatim>\<open>upload_asset\<close> raise, no scoring request is in the trace. And a trace that holds a
  scoring request starts with a reserve call and a transfer call that both succeeded.
\<close>

theorem upload_failure_prevents_scoring:
  assumes "threshold_ok thr" and "extension_ok (file_name f)" and "key_is_set key"
    and "180000 \<le> length (b64encode (file_bytes f))"
  shows "(\<forall>e. call_failure (w [] (reserve_request key ''Input Image''
                   (mime_type_of (extension (file_name f))))) = Some e \<longrightarrow>
            detect_deepfake key w f (Some thr) =
              (Inl (HTTPException 500 (StrOf e)),
               if is_sent (w [] (reserve_request key ''Input Image''
                   (mime_type_of (extension (file_name f)))))
               then [reserve_request key ''Input Image'' (mime_type_of (extension (file_name f)))]
               else []))
       \<and> (\<forall>resp j u aid e.
            w [] (reserve_request key ''Input Image'' (mime_type_of (extension (file_name f))))
              = Answered resp \<and>
            call_failure (Answered resp) = None \<and>
            json_body resp = Inr j \<and>
            py_getitem j ''uploadUrl'' = Inr u \<and>
            py_getitem j ''assetId'' = Inr aid \<and>
            call_failure (w [reserve_request key ''Input Image''
                               (mime_type_of (extension (file_name f)))]
                            (transfer_request u (file_bytes f) ''Input Image''
                               (mime_type_of (extension (file_name f))))) = Some e \<longrightarrow>
            detect_deepfake key w f (Some thr) =
              (Inl (HTTPException 500 (StrOf e)),
               if is_sent (w [reserve_request key ''Input Image''
                               (mime_type_of (extension (file_name f)))]
                            (transfer_request u (file_bytes f) ''Input Image''
                               (mime_type_of (extension (file_name f)))))
               then [reserve_request key ''Input Image'' (mime_type_of (extension (file_name f))),
                     transfer_request u (file_bytes f) ''Input Image''
                       (mime_type_of (extension (file_name f)))]
               else [reserve_request key ''Input Image'' (mime_type_of (extension (file_name f)))]))
       \<and> (\<forall>e. fst (upload_asset key w (file_bytes f) ''Input Image''
                     (mime_type_of (extension (file_name f))) []) = Inl e \<longrightarrow>
            fst (detect_deepfake key w f (Some thr)) = Inl (HTTPException 500 (StrOf e)) \<and>
            (\<forall>rq \<in> set (snd (detect_deepfake key w f (Some thr))). \<not> is_scoring rq))
       \<and> ((\<exists>rq \<in> set (snd (detect_deepfake key w f (Some thr))). is_scoring rq) \<longrightarrow>
            call_failure (w [] (reserve_request key ''Input Image''
                   (mime_type_of (extension (file_name f))))) = None \<and>
            (\<exists>u. call_failure (w [reserve_request key ''Input Image''
                               (mime_type_of (extension (file_name f)))]
                            (transfer_request u (file_bytes f) ''Input Image''
                               (mime_type_of (extension (file_name f))))) = None \<and>
                 take 2 (snd (detect_deepfake key w f (Some thr))) =
                   [reserve_request key ''Input Image'' (mime_type_of (extension (file_name f))),
                    transfer_request u (file_bytes f) ''Input Image''
                      (mime_type_of (extension (file_name f)))]))"
proof -
  let ?d = "detect_deepfake key w f (Some thr)"
  let ?m = "mime_type_of (extension (file_name f))"
  let ?b = "b64encode (file_bytes f)"
  let ?R = "reserve_request key ''Input Image'' ?m"
  let ?up = "upload_asset key w (file_bytes f) ''Input Image'' ?m []"
  have failed: "?d = (Inl (HTTPException 500 (StrOf e)), snd ?up)" if "fst ?up = Inl e" for e
  proof -
    from that assms(4) have "submission key w (file_bytes f) ?m ?b [] = (Inl e, snd ?up)"
      by (cases ?up) (simp add: submission_asset)
    from detect_submission_failed [OF assms(1,2,3) this] show ?thesis .
  qed
  have no_scoring: "\<forall>rq \<in> set (snd ?up). \<not> is_scoring rq"
    using upload_asset_no_scoring [of "[]" key w "file_bytes f" "''Input Image''" ?m] by simp
  have one: "?d = (Inl (HTTPException 500 (StrOf e)), if is_sent (w [] ?R) then [?R] else [])"
    if "call_failure (w [] ?R) = Some e" for e
    using failed [of e]
      call_failure_reserve [of w "[]" key "''Input Image''" ?m e "file_bytes f"] that
    by simp
  have two: "?d = (Inl (HTTPException 500 (StrOf e)),
        if is_sent (w [?R] (transfer_request u (file_bytes f) ''Input Image'' ?m))
        then [?R, transfer_request u (file_bytes f) ''Input Image'' ?m] else [?R])"
    if "w [] ?R = Answered resp" and "call_failure (Answered resp) = None"
      and "json_body resp = Inr j" and "py_getitem j ''uploadUrl'' = Inr u"
      and "py_getitem j ''assetId'' = Inr aid"
      and "call_failure (w [?R] (transfer_request u (file_bytes f) ''Input Image'' ?m)) = Some e"
    for resp j u aid e
  proof -
    have "upload_asset key w (file_bytes f) ''Input Image'' ?m []
        = (Inl e, if is_sent (w ([] @ [?R]) (transfer_request u (file_bytes f) ''Input Image'' ?m))
             then [] @ [?R, transfer_request u (file_bytes f) ''Input Image'' ?m] else [] @ [?R])"
      using call_failure_transfer [of w "[]" key "''Input Image''" ?m resp j u aid "file_bytes f" e]
        that
      by simp
    with failed [of e] show ?thesis by simp
  qed
  have three: "fst ?d = Inl (HTTPException 500 (StrOf e)) \<and> (\<forall>rq \<in> set (snd ?d). \<not> is_scoring rq)"
    if "fst ?up = Inl e" for e
    using failed [OF that] no_scoring by simp
  have four: "call_failure (w [] ?R) = None \<and>
      (\<exists>u. call_failure (w [?R] (transfer_request u (file_bytes f) ''Input Image'' ?m)) = None \<and>
           take 2 (snd ?d) = [?R, transfer_request u (file_bytes f) ''Input Image'' ?m])"
    if sent: "\<exists>rq \<in> set (snd ?d). is_scoring rq"
  proof -
    have "\<exists>aid. fst ?up = Inr aid"
    proof (cases "fst ?up")
      case (Inl e)
      from three [OF this] sent show ?thesis by blast
    next
      case (Inr a)
      then show ?thesis by blast
    qed
    then obtain aid where aid: "fst ?up = Inr aid" ..
    from upload_asset_returns [OF aid] obtain u
      where u: "call_failure (w [] ?R) = None"
        "snd ?up = [?R, transfer_request u (file_bytes f) ''Input Image'' ?m]"
        "call_failure (w [?R] (transfer_request u (file_bytes f) ''Input Image'' ?m)) = None"
      by auto
    have "take 2 (snd ?d) = snd ?up"
    proof (cases "asset_submission key ?m aid")
      case (Inr sub)
      with aid assms(4) have "submission key w (file_bytes f) ?m ?b [] = (Inr sub, snd ?up)"
        by (cases ?up) (simp add: submission_asset)
      from detect_submitted [OF assms(1,2,3) this] u(2) show ?thesis by simp
    next
      case (Inl e)
      with aid assms(4) have "submission key w (file_bytes f) ?m ?b [] = (Inl e, snd ?up)"
        by (cases ?up) (simp add: submission_asset)
      from detect_submission_failed [OF assms(1,2,3) this] u(2) show ?thesis by simp
    qed
    with u show ?thesis by auto
  qed
  have c1: "\<forall>e. call_failure (w [] ?R) = Some e \<longrightarrow>
      ?d = (Inl (HTTPException 500 (StrOf e)), if is_sent (w [] ?R) then [?R] else [])"
    using one by blast
  have c2: "\<forall>resp j u aid e.
            w [] ?R = Answered resp \<and> call_failure (Answered resp) = None \<and>
            json_body resp = Inr j \<and> py_getitem j ''uploadUrl'' = Inr u \<and>
            py_getitem j ''assetId'' = Inr aid \<and>
            call_failure (w [?R] (transfer_request u (file_bytes f) ''Input Image'' ?m)) = Some e \<longrightarrow>
            ?d = (Inl (HTTPException 500 (StrOf e)),
               if is_sent (w [?R] (transfer_request u (file_bytes f) ''Input Image'' ?m))
               then [?R, transfer_request u (file_bytes f) ''Input Image'' ?m]
               else [?R])"
    using two by blast
  have c3: "\<forall>e. fst ?up = Inl e \<longrightarrow>
            fst ?d = Inl (HTTPException 500 (StrOf e)) \<and> (\<forall>rq \<in> set (snd ?d). \<not> is_scoring rq)"
    using three by blast
  have c4: "(\<exists>rq \<in> set (snd ?d). is_scoring rq) \<longrightarrow>
            call_failure (w [] ?R) = None \<and>
            (\<exists>u. call_failure (w [?R] (transfer_request u (file_bytes f) ''Input Image'' ?m)) = None \<and>
                 take 2 (snd ?d) = [?R, transfer_request u (file_bytes f) ''Input Image'' ?m])"
    using four by blast
  from c1 c2 c3 c4 show ?thesis
    by - (intro conjI, assumption+)
qed

theorem upload_failure_prevents_scoring_witness:
  "threshold_ok default_threshold \<and> extension_ok (file_name big_jpeg) \<and>
   key_is_set (Some ''nvapi-key'') \<and>
   180000 \<le> length (b64encode (file_bytes big_jpeg)) \<and>
   dropping_transfer [] (reserve_request (Some ''nvapi-key'') ''Input Image''
       (mime_type_of (extension (file_name big_jpeg))))
     = Answered (ok_response ASSETS_URL (reservation (JStr ''asset-1''))) \<and>
   call_failure (Answered (ok_response ASSETS_URL (reservation (JStr ''asset-1'')))) = None \<and>
   call_failure (dropping_transfer
       [reserve_request (Some ''nvapi-key'') ''Input Image''
          (mime_type_of (extension (file_name big_jpeg)))]
       (transfer_request (JStr ''https://assets.example/put/1'') (file_bytes big_jpeg)
          ''Input Image'' (mime_type_of (extension (file_name big_jpeg)))))
     = Some (ConnectionError ''Connection aborted.'') \<and>
   detect_deepfake (Some ''nvapi-key'') dropping_transfer big_jpeg (Some default_threshold)
     = (Inl (HTTPException 500 (StrOf (ConnectionError ''Connection aborted.''))),
        [reserve_request (Some ''nvapi-key'') ''Input Image''
           (mime_type_of (extension (file_name big_jpeg))),
         transfer_request (JStr ''https://assets.example/put/1'') (file_bytes big_jpeg)
           ''Input Image'' (mime_type_of (extension (file_name big_jpeg)))])"
proof -
  let ?m = "mime_type_of (extension (file_name big_jpeg))"
  let ?R = "reserve_request (Some ''nvapi-key'') ''Input Image'' ?m"
  let ?u = "JStr ''https://assets.example/put/1''"
  let ?T = "transfer_request ?u (file_bytes big_jpeg) ''Input Image'' ?m"
  let ?resp = "ok_response ASSETS_URL (reservation (JStr ''asset-1''))"
  have ge: "180000 \<le> length (b64encode (file_bytes big_jpeg))"
    by (simp add: big_jpeg_accepted(3))
  have h1: "dropping_transfer [] ?R = Answered ?resp"
    by (simp add: dropping_transfer_def reserve_request_def)
  have h2: "call_failure (Answered ?resp) = None"
    by (simp add: call_failure_def then_do_def raise_for_status_def ok_response_def)
  have h3: "json_body ?resp = Inr (reservation (JStr ''asset-1''))"
    by (simp add: ok_response_def)
  have h4: "py_getitem (reservation (JStr ''asset-1'')) ''uploadUrl'' = Inr ?u"
    "py_getitem (reservation (JStr ''asset-1'')) ''assetId'' = Inr (JStr ''asset-1'')"
    by (simp_all add: reservation_def)
  have h5: "call_failure (dropping_transfer [?R] ?T) = Some (ConnectionError ''Connection aborted.'')"
    by (simp add: dropping_transfer_def transfer_request_def ASSETS_URL_def call_failure_def
        then_do_def)
  have s: "is_sent (dropping_transfer [?R] ?T)"
    by (simp add: dropping_transfer_def transfer_request_def ASSETS_URL_def)
  note step = upload_failure_prevents_scoring [OF default_threshold_ok big_jpeg_accepted(1)
      key_set ge, of dropping_transfer, THEN conjunct2, THEN conjunct1, rule_format,
      of ?resp "reservation (JStr ''asset-1'')" ?u "JStr ''asset-1''"
         "ConnectionError ''Connection aborted.''"]
  from step h1 h2 h3 h4 h5 s
  have "detect_deepfake (Some ''nvapi-key'') dropping_transfer big_jpeg (Some default_threshold)
     = (Inl (HTTPException 500 (StrOf (ConnectionError ''Connection aborted.''))), [?R, ?T])"
    by simp
  with default_threshold_ok big_jpeg_accepted(1) key_set ge h1 h2 h5 show ?thesis
    by blast
qed


section \<open>Failure reporting\<close>





end
